theory Spec2Isabelle
  imports Complex_Main
begin

section \<open>Finite-size charge corrections of doped: the orchestration layer\<close>

text \<open>
  This theory embeds \<^verbatim>\<open>doped/corrections.py\<close>: the two public entry points
  \<^verbatim>\<open>get_kumagai_correction\<close> (eFNV) and \<^verbatim>\<open>get_freysoldt_correction\<close> (FNV), the
  nested \<^verbatim>\<open>doped_make_efnv_correction\<close>, \<^verbatim>\<open>plot_FNV\<close> and the small validation
  helpers.

  Conventions of the embedding.
  \<^item> Python floats are modelled as \<^typ>\<open>real\<close>: rounding, infinities and NaN are outside
    the model. Python ints are \<^typ>\<open>int\<close>.
  \<^item> Every \<^verbatim>\<open>raise\<close> is a value \<open>Inl e\<close> of the result type \<open>error + 'a\<close>.
  \<^item> The numerical engines and object models come from other packages (pydefect,
    pymatgen, matplotlib) and from modules of doped that are not part of this file
    (\<^verbatim>\<open>doped.utils.parsing\<close>, \<^verbatim>\<open>doped.utils.plotting\<close>). They are not defined here:
    they are the fields of the record \<open>collaborators\<close>, passed to every function that
    calls them, and nothing is assumed about them.
  \<^item> \<^verbatim>\<open>print\<close> of the computed energy (\<^verbatim>\<open>verbose\<close>), the warning filters, the font
    installation and the logger level do not influence any returned value and are left
    out. The metadata of an entry is taken after \<^verbatim>\<open>_monty_decode_nested_dicts\<close>, which
    only replaces serialised dicts by the objects they encode.
\<close>

subsection \<open>Errors and Python values\<close>

datatype error =
    ValueError string
  | TypeError string
  | KeyError string
  | IndexError
  | AttributeError string
  | SupercellError string
  | ExternalError string

type_synonym matrix = "real list list"
type_synonym coords = "real list"

text \<open>Reading \<^verbatim>\<open>xs[i]\<close> from a Python sequence: an index from \<open>0\<close> up to the length
  reads from the front, one from minus the length up to \<open>-1\<close> reads from the back, and
  every other index raises IndexError.\<close>

definition py_index :: "'a list \<Rightarrow> int \<Rightarrow> error + 'a" where
  "py_index xs i =
     (if 0 \<le> i \<and> i < int (length xs) then Inr (xs ! nat i)
      else if - int (length xs) \<le> i \<and> i < 0 then Inr (xs ! nat (int (length xs) + i))
      else Inl IndexError)"

subsection \<open>Structures, calculation results and the eFNV result object\<close>

text \<open>The parts of pymatgen's \<^verbatim>\<open>PeriodicSite\<close> and \<^verbatim>\<open>Structure\<close> that the code reads.\<close>

record periodic_site =
  specie :: string
  frac_coords :: coords

record supercell =
  lattice :: matrix
  sites :: "periodic_site list"

text \<open>pydefect's \<^verbatim>\<open>CalcResults\<close>; \<^verbatim>\<open>energy\<close> and \<^verbatim>\<open>magnetization\<close> are set to
  \<^verbatim>\<open>np.inf\<close> by the caller and never read.\<close>

record calc_results =
  cr_structure :: supercell
  potentials :: "real list"

text \<open>pydefect's \<^verbatim>\<open>PotentialSite\<close> and \<^verbatim>\<open>ExtendedFnvCorrection\<close> (their constructor
  fields).\<close>

record potential_site =
  ps_specie :: string
  distance :: real
  potential :: real
  pc_potential :: "real option"

record extended_fnv_correction =
  charge :: int
  point_charge_correction :: real
  defect_region_radius :: real
  efnv_sites :: "potential_site list"
  defect_coords :: coords

subsection \<open>Inputs of the entry points\<close>

text \<open>The dielectric argument: a number, a one-dimensional sequence or a
  two-dimensional sequence.\<close>

datatype dielectric_input =
    DScalar real
  | DVector "real list"
  | DMatrix "real list list"

text \<open>What a caller may pass as \<^verbatim>\<open>defect_locpot\<close>, \<^verbatim>\<open>bulk_locpot\<close>, \<^verbatim>\<open>defect_outcar\<close>
  or \<^verbatim>\<open>bulk_outcar\<close>: a path, a pymatgen \<^verbatim>\<open>Locpot\<close> (opaque here), a pymatgen
  \<^verbatim>\<open>Outcar\<close> (of which only \<^verbatim>\<open>electrostatic_potential\<close> is read), a dict of planar
  averages, or an object of any other type (of which only its truth value matters).\<close>

datatype locpot = Locpot nat

record outcar =
  electrostatic_potential :: "real list option"

datatype pmg_input =
    PathStr string
  | LocpotObj locpot
  | OutcarObj outcar
  | DictObj "(int \<times> real list) list"
  | OtherObj bool

record calculation_metadata =
  md_dielectric :: "dielectric_input option"
  md_defect_locpot_dict :: "pmg_input option"
  md_bulk_locpot_dict :: "pmg_input option"
  md_defect_site_potentials :: "real list option"
  md_bulk_site_potentials :: "real list option"

text \<open>A \<^verbatim>\<open>DefectEntry\<close>: the attributes read by this module (name, charge state,
  metadata) and the data that the helpers of \<^verbatim>\<open>doped.utils.parsing\<close> extract from it
  (the two supercells and the fractional coordinates of the defect site).\<close>

record defect_entry =
  entry_name :: string
  charge_state :: int
  metadata_of :: calculation_metadata
  entry_defect_supercell :: supercell
  entry_bulk_supercell :: supercell
  entry_site_coords :: "coords option"

text \<open>Values found in the metadata of an FNV result (\<^verbatim>\<open>plot_data\<close>): nested dicts
  keyed by strings or ints, sequences and numbers.\<close>

datatype pykey = KStr string | KInt int

datatype pyval =
    PyNone
  | PyFloat real
  | PyList "pyval list"
  | PyDict "(pykey \<times> pyval) list"

datatype figure = Figure nat

text \<open>pymatgen's \<^verbatim>\<open>CorrectionResult\<close>; the metadata is a dict of plot data for FNV and
  a dict holding the eFNV object for eFNV.\<close>

record 'm correction_result =
  correction_energy :: real
  metadata :: 'm

text \<open>What an entry point returns: the result alone, or the pair of result and figure.\<close>

datatype ('r, 'f) returned = Alone 'r | WithFigure 'r 'f

subsection \<open>External collaborators\<close>

record collaborators =
  \<comment> \<open>pymatgen: \<^verbatim>\<open>Lattice.__eq__\<close>, \<^verbatim>\<open>Lattice.get_distance_and_image\<close> (distance only),
      \<^verbatim>\<open>Lattice.volume\<close>, \<^verbatim>\<open>Structure.scale_lattice\<close>,
      \<^verbatim>\<open>Structure.remove_oxidation_states\<close>\<close>
  lattice_eq :: "matrix \<Rightarrow> matrix \<Rightarrow> bool"
  get_distance :: "matrix \<Rightarrow> coords \<Rightarrow> coords \<Rightarrow> real"
  volume :: "matrix \<Rightarrow> real"
  scale_lattice :: "supercell \<Rightarrow> real \<Rightarrow> supercell"
  remove_oxidation_states :: "supercell \<Rightarrow> supercell"
  \<comment> \<open>pydefect: \<^verbatim>\<open>DefectStructureComparator\<close>, \<^verbatim>\<open>Ewald\<close>, \<^verbatim>\<open>calc_max_sphere_radius\<close>,
      \<^verbatim>\<open>defaults.ewald_accuracy\<close>, \<^verbatim>\<open>ExtendedFnvCorrection.correction_energy\<close>\<close>
  atom_mapping :: "supercell \<Rightarrow> supercell \<Rightarrow> (int \<times> int) list"
  defect_center_coord :: "supercell \<Rightarrow> supercell \<Rightarrow> coords"
  ewald_lattice_energy :: "matrix \<Rightarrow> matrix \<Rightarrow> real \<Rightarrow> real"
  ewald_atomic_site_potential :: "matrix \<Rightarrow> matrix \<Rightarrow> real \<Rightarrow> coords \<Rightarrow> real"
  calc_max_sphere_radius :: "matrix \<Rightarrow> real"
  ewald_accuracy :: real
  efnv_correction_energy :: "extended_fnv_correction \<Rightarrow> real"
  \<comment> \<open>pymatgen-analysis-defects: \<^verbatim>\<open>freysoldt.get_freysoldt_correction\<close>, called with
      q, dielectric, defect_locpot, bulk_locpot, lattice, defect_frac_coords, kwargs\<close>
  pmg_freysoldt_correction ::
    "int \<Rightarrow> matrix \<Rightarrow> pmg_input \<Rightarrow> pmg_input \<Rightarrow> matrix option \<Rightarrow> coords option \<Rightarrow>
     (string \<times> real) list \<Rightarrow> error + pyval correction_result"
  \<comment> \<open>doped.utils.parsing and doped.utils.plotting\<close>
  get_defect_supercell :: "defect_entry \<Rightarrow> supercell"
  get_bulk_supercell :: "defect_entry \<Rightarrow> supercell"
  get_defect_supercell_bulk_site_coords :: "defect_entry \<Rightarrow> coords option"
  get_locpot :: "string \<Rightarrow> error + locpot"
  get_outcar :: "string \<Rightarrow> error + outcar"
  format_defect_name :: "string \<Rightarrow> string"
  \<comment> \<open>matplotlib and pydefect's \<^verbatim>\<open>SitePotentialMplPlotter\<close>: drawing and saving\<close>
  draw_fnv :: "pyval list \<Rightarrow> string option \<Rightarrow> figure option \<Rightarrow> string \<Rightarrow> error + figure"
  subplots :: "figure \<times> figure list"
  module_dirname :: string
  draw_site_potentials :: "string \<Rightarrow> extended_fnv_correction \<Rightarrow> string \<Rightarrow> error + figure"
  savefig :: "string \<Rightarrow> error + unit"

subsection \<open>doped_make_efnv_correction\<close>

text \<open>One iteration of the loop over \<^verbatim>\<open>atom_mapping.items()\<close> for an index that is not
  excluded: the new \<^verbatim>\<open>PotentialSite\<close> (without model potential) and the coordinate
  relative to the defect. The two lists \<^verbatim>\<open>sites\<close> and \<^verbatim>\<open>rel_coords\<close> of the source grow
  in lockstep and are only read through \<^verbatim>\<open>zip\<close>, so the model keeps one list of pairs.\<close>

definition make_potential_site ::
  "collaborators \<Rightarrow> calc_results \<Rightarrow> calc_results \<Rightarrow> coords \<Rightarrow> int \<times> int \<Rightarrow>
   error + (potential_site \<times> coords)" where
  "make_potential_site lib cr pcr dc dp =
     (case py_index (sites (cr_structure cr)) (fst dp) of
        Inl e \<Rightarrow> Inl e
      | Inr s \<Rightarrow>
        (case py_index (potentials cr) (fst dp) of
           Inl e \<Rightarrow> Inl e
         | Inr vd \<Rightarrow>
           (case py_index (potentials pcr) (snd dp) of
              Inl e \<Rightarrow> Inl e
            | Inr vp \<Rightarrow>
                Inr (\<lparr>ps_specie = specie s,
                      distance = get_distance lib (lattice (cr_structure cr)) dc (frac_coords s),
                      potential = vd - vp,
                      pc_potential = None\<rparr>,
                     map2 (\<lambda>x y. x - y) (frac_coords s) dc))))"

fun collect_sites ::
  "collaborators \<Rightarrow> calc_results \<Rightarrow> calc_results \<Rightarrow> coords \<Rightarrow> int list \<Rightarrow> (int \<times> int) list \<Rightarrow>
   error + (potential_site \<times> coords) list" where
  "collect_sites lib cr pcr dc excl [] = Inr []"
| "collect_sites lib cr pcr dc excl (dp # rest) =
     (if fst dp \<in> set excl then collect_sites lib cr pcr dc excl rest
      else (case make_potential_site lib cr pcr dc dp of
              Inl e \<Rightarrow> Inl e
            | Inr sr \<Rightarrow>
              (case collect_sites lib cr pcr dc excl rest of
                 Inl e \<Rightarrow> Inl e
               | Inr srs \<Rightarrow> Inr (sr # srs))))"

text \<open>The body of the second loop, over \<^verbatim>\<open>zip(sites, rel_coords)\<close>.\<close>

definition assign_pc_potential ::
  "collaborators \<Rightarrow> matrix \<Rightarrow> matrix \<Rightarrow> real \<Rightarrow> int \<Rightarrow> real \<Rightarrow> real \<Rightarrow>
   potential_site \<times> coords \<Rightarrow> potential_site" where
  "assign_pc_potential lib latt diel acc q uc radius sr =
     (if distance (fst sr) > radius then
        (if q = 0 then (fst sr)\<lparr>pc_potential := Some 0\<rparr>
         else (fst sr)\<lparr>pc_potential :=
                 Some (ewald_atomic_site_potential lib latt diel acc (snd sr) * real_of_int q * uc)\<rparr>)
      else fst sr)"

definition unit_conversion_default :: real where
  "unit_conversion_default = 180.95128169876497"

text \<open>The argument defaults resolved at the top of the function body:
  \<^verbatim>\<open>if defect_coords is None: defect_coords = structure_analyzer.defect_center_coord\<close>,
  \<^verbatim>\<open>excluded_indices = [] if excluded_indices is None else [int(i) for i in excluded_indices]\<close>
  and \<^verbatim>\<open>if defect_region_radius is None: defect_region_radius = calc_max_sphere_radius(lattice.matrix)\<close>.\<close>

definition center_coords :: "collaborators \<Rightarrow> calc_results \<Rightarrow> calc_results \<Rightarrow> coords option \<Rightarrow> coords" where
  "center_coords lib cr pcr coords_arg =
     (case coords_arg of
        None \<Rightarrow> defect_center_coord lib (cr_structure cr) (cr_structure pcr)
      | Some c \<Rightarrow> c)"

definition excluded_list :: "int list option \<Rightarrow> int list" where
  "excluded_list excluded_arg = (case excluded_arg of None \<Rightarrow> [] | Some ixs \<Rightarrow> ixs)"

definition region_radius :: "collaborators \<Rightarrow> matrix \<Rightarrow> real option \<Rightarrow> real" where
  "region_radius lib latt radius_arg =
     (case radius_arg of None \<Rightarrow> calc_max_sphere_radius lib latt | Some r \<Rightarrow> r)"

text \<open>\<^verbatim>\<open>point_charge_correction = -ewald.lattice_energy * charge**2 if charge else 0.0\<close>\<close>

definition point_charge_term :: "collaborators \<Rightarrow> matrix \<Rightarrow> matrix \<Rightarrow> real \<Rightarrow> int \<Rightarrow> real" where
  "point_charge_term lib latt dielectric_tensor accuracy q =
     (if q \<noteq> 0
      then - ewald_lattice_energy lib latt dielectric_tensor accuracy * (real_of_int q)\<^sup>2
      else 0)"

definition doped_make_efnv_correction ::
  "collaborators \<Rightarrow> int \<Rightarrow> calc_results \<Rightarrow> calc_results \<Rightarrow> matrix \<Rightarrow> real option \<Rightarrow>
   coords option \<Rightarrow> real \<Rightarrow> real \<Rightarrow> int list option \<Rightarrow> error + extended_fnv_correction" where
  "doped_make_efnv_correction lib q cr pcr dielectric_tensor radius_arg coords_arg accuracy
       unit_conversion excluded_arg =
     (if \<not> lattice_eq lib (lattice (cr_structure cr)) (lattice (cr_structure pcr))
      then Inl (SupercellError ''The lattice constants for defect and perfect models are different'')
      else
        let dc = center_coords lib cr pcr coords_arg;
            latt = lattice (cr_structure cr)
        in (case collect_sites lib cr pcr dc (excluded_list excluded_arg)
                   (atom_mapping lib (cr_structure cr) (cr_structure pcr)) of
              Inl e \<Rightarrow> Inl e
            | Inr srs \<Rightarrow>
                let radius = region_radius lib latt radius_arg
                in Inr \<lparr>charge = q,
                        point_charge_correction =
                          point_charge_term lib latt dielectric_tensor accuracy q * unit_conversion,
                        defect_region_radius = radius,
                        efnv_sites = map (assign_pc_potential lib latt dielectric_tensor accuracy
                                            q unit_conversion radius) srs,
                        defect_coords = dc\<rparr>))"

subsection \<open>Validation helpers\<close>

text \<open>\<^verbatim>\<open>_check_if_None_and_raise_error_if_so\<close>. The Python function returns nothing; the
  model returns the value, now known not to be None, so that the caller can go on with
  it.\<close>

definition missing_input_error :: "string \<Rightarrow> string \<Rightarrow> error" where
  "missing_input_error var_name display_name =
     ValueError (var_name
       @ '' must be provided as an argument or be present in the `defect_entry` ''
       @ ''`calculation_metadata` (as `'' @ display_name
       @ ''`), neither of which is the case here!'')"

definition check_if_None_and_raise_error_if_so :: "'a option \<Rightarrow> string \<Rightarrow> string \<Rightarrow> error + 'a" where
  "check_if_None_and_raise_error_if_so var var_name display_name =
     (case var of
        None \<Rightarrow> Inl (missing_input_error var_name display_name)
      | Some v \<Rightarrow> Inr v)"

text \<open>\<^verbatim>\<open>_get_and_check_metadata(entry, key, display_name)\<close>: the first argument of the model
  is \<^verbatim>\<open>entry.calculation_metadata.get(key, None)\<close>. The source passes \<^verbatim>\<open>display_name\<close> as
  the variable name and \<^verbatim>\<open>key\<close> as the display name of the check.\<close>

definition get_and_check_metadata :: "'a option \<Rightarrow> string \<Rightarrow> string \<Rightarrow> error + 'a" where
  "get_and_check_metadata val key display_name =
     check_if_None_and_raise_error_if_so val display_name key"

text \<open>\<^verbatim>\<open>_check_if_str_and_get_pmg_obj\<close>. The message of the TypeError ends with the Python
  type of the argument, which the model does not represent.\<close>

definition check_if_str_and_get_pmg_obj :: "collaborators \<Rightarrow> pmg_input \<Rightarrow> string \<Rightarrow> error + pmg_input" where
  "check_if_str_and_get_pmg_obj lib locpot_or_outcar obj_type =
     (case locpot_or_outcar of
        PathStr p \<Rightarrow>
          (if obj_type = ''locpot''
           then (case get_locpot lib p of Inl e \<Rightarrow> Inl e | Inr l \<Rightarrow> Inr (LocpotObj l))
           else (case get_outcar lib p of Inl e \<Rightarrow> Inl e | Inr oc \<Rightarrow> Inr (OutcarObj oc)))
      | OtherObj b \<Rightarrow> Inl (TypeError (''`'' @ obj_type @ ''` input must be either a path or a pymatgen object''))
      | _ \<Rightarrow> Inr locpot_or_outcar)"

text \<open>\<^verbatim>\<open>_raise_incomplete_outcar_error\<close>: the error it raises.\<close>

definition raise_incomplete_outcar_error :: "pmg_input \<Rightarrow> string \<Rightarrow> error" where
  "raise_incomplete_outcar_error oc dir_type =
     (let outcar_info = (case oc of PathStr p \<Rightarrow> ''`OUTCAR` at '' @ p | _ \<Rightarrow> ''`OUTCAR` object'')
      in ValueError (''Unable to parse atomic core potentials from '' @ dir_type @ '' '' @ outcar_info
           @ ''. This can happen if `ICORELEVEL` was not set to 0 (= default) in the `INCAR`, or if ''
           @ ''the calculation was finished prematurely with a `STOPCAR`. The Kumagai charge ''
           @ ''correction cannot be computed without this data!''))"

text \<open>Modelled from the spec: \<^verbatim>\<open>doped.analysis._convert_dielectric_to_tensor\<close> is not part
  of the sources at hand. Section 4.1: a scalar becomes scalar times identity, a
  length-3 sequence becomes the diagonal tensor, a 3x3 input is passed through
  unchanged, any other shape fails with an input-validation error.\<close>

definition convert_dielectric_to_tensor :: "dielectric_input \<Rightarrow> error + matrix" where
  "convert_dielectric_to_tensor d =
     (case d of
        DScalar x \<Rightarrow> Inr [[x, 0, 0], [0, x, 0], [0, 0, x]]
      | DVector v \<Rightarrow>
          (case v of
             [a, b, c] \<Rightarrow> Inr [[a, 0, 0], [0, b, 0], [0, 0, c]]
           | _ \<Rightarrow> Inl (ValueError ''dielectric: unsupported shape''))
      | DMatrix m \<Rightarrow>
          (if length m = 3 \<and> list_all (\<lambda>row. length row = 3) m then Inr m
           else Inl (ValueError ''dielectric: unsupported shape'')))"

text \<open>\<^verbatim>\<open>numpy.allclose(a, b, rtol, atol)\<close> on two matrices of the same shape, as numpy
  documents it: every pair of elements satisfies \<open>|a - b| \<le> atol + rtol * |b|\<close>. The
  default \<^verbatim>\<open>rtol\<close> is \<open>1e-5\<close>.\<close>

definition allclose :: "matrix \<Rightarrow> matrix \<Rightarrow> real \<Rightarrow> real \<Rightarrow> bool" where
  "allclose a b rtol atol =
     list_all2 (list_all2 (\<lambda>x y. \<bar>x - y\<bar> \<le> atol + rtol * \<bar>y\<bar>)) a b"

definition rtol_default :: real where
  "rtol_default = 1 / 100000"

subsection \<open>get_kumagai_correction\<close>

text \<open>The dielectric argument or, when it is None, the cached one; then normalised.\<close>

definition resolve_dielectric :: "defect_entry \<Rightarrow> dielectric_input option \<Rightarrow> error + matrix" where
  "resolve_dielectric entry dielectric =
     (case (case dielectric of
              None \<Rightarrow> get_and_check_metadata (md_dielectric (metadata_of entry))
                        ''dielectric'' ''Dielectric constant''
            | Some d \<Rightarrow> Inr d) of
        Inl e \<Rightarrow> Inl e
      | Inr d \<Rightarrow> convert_dielectric_to_tensor d)"

text \<open>The two blocks that obtain the site potentials (defect, then bulk) differ only in
  the names; \<open>dir_type\<close>, the cached value and its key and display name are the
  parameters. Reading \<^verbatim>\<open>electrostatic_potential\<close> from an object that is no Outcar raises
  an AttributeError.\<close>

definition resolve_site_potentials ::
  "collaborators \<Rightarrow> pmg_input option \<Rightarrow> string \<Rightarrow> real list option \<Rightarrow> string \<Rightarrow> string \<Rightarrow>
   error + real list" where
  "resolve_site_potentials lib outcar_arg dir_type cached key display_name =
     (case outcar_arg of
        Some x \<Rightarrow>
          (case check_if_str_and_get_pmg_obj lib x ''outcar'' of
             Inl e \<Rightarrow> Inl e
           | Inr (OutcarObj oc) \<Rightarrow>
               (case electrostatic_potential oc of
                  None \<Rightarrow> Inl (raise_incomplete_outcar_error (OutcarObj oc) dir_type)
                | Some ps \<Rightarrow> Inr (map (\<lambda>v. - 1 * v) ps))
           | Inr _ \<Rightarrow> Inl (AttributeError ''electrostatic_potential''))
      | None \<Rightarrow> get_and_check_metadata cached key display_name)"

text \<open>The bulk supercell after the lattice comparison of the entry point. The message
  of the source ends with the printed lattices, which the model leaves out.\<close>

definition different_lattices_error :: error where
  "different_lattices_error =
     ValueError (''Bulk and defect supercells have different lattices, and so the ''
       @ ''eFNV (Kumagai) correction cannot be computed!'')"

definition match_bulk_lattice :: "collaborators \<Rightarrow> supercell \<Rightarrow> supercell \<Rightarrow> error + supercell" where
  "match_bulk_lattice lib bulk_supercell defect_supercell =
     (if \<not> lattice_eq lib (lattice bulk_supercell) (lattice defect_supercell) then
        (if allclose (lattice bulk_supercell) (lattice defect_supercell) rtol_default (1 / 100)
         then Inr (scale_lattice lib bulk_supercell (volume lib (lattice defect_supercell)))
         else Inl different_lattices_error)
      else Inr bulk_supercell)"

text \<open>The call of \<^verbatim>\<open>doped_make_efnv_correction\<close> with \<^verbatim>\<open>**kwargs\<close>: the only parameters of
  the nested function that the entry point does not pass itself are \<^verbatim>\<open>accuracy\<close> and
  \<^verbatim>\<open>unit_conversion\<close>; any other keyword is a TypeError of the call.\<close>

definition call_doped_make_efnv_correction ::
  "collaborators \<Rightarrow> int \<Rightarrow> calc_results \<Rightarrow> calc_results \<Rightarrow> matrix \<Rightarrow> coords option \<Rightarrow>
   real option \<Rightarrow> int list option \<Rightarrow> (string \<times> real) list \<Rightarrow> error + extended_fnv_correction" where
  "call_doped_make_efnv_correction lib q cr pcr dielectric coords_arg radius_arg excluded_arg kwargs =
     (if \<not> list_all (\<lambda>kv. fst kv = ''accuracy'' \<or> fst kv = ''unit_conversion'') kwargs
      then Inl (TypeError ''doped_make_efnv_correction() got an unexpected or repeated keyword argument'')
      else doped_make_efnv_correction lib q cr pcr dielectric radius_arg coords_arg
             (case map_of kwargs ''accuracy'' of None \<Rightarrow> ewald_accuracy lib | Some a \<Rightarrow> a)
             (case map_of kwargs ''unit_conversion'' of None \<Rightarrow> unit_conversion_default | Some u \<Rightarrow> u)
             excluded_arg)"

type_synonym efnv_result = "(string \<times> extended_fnv_correction) list correction_result"

text \<open>The end of the computation: the two \<^verbatim>\<open>CalcResults\<close>, the call of the nested
  function and the \<^verbatim>\<open>CorrectionResult\<close> built from its result, which is returned
  together with the eFNV object (the plotting branch reads it).\<close>

definition kumagai_result_from ::
  "collaborators \<Rightarrow> defect_entry \<Rightarrow> matrix \<Rightarrow> supercell \<Rightarrow> real list \<Rightarrow> supercell \<Rightarrow> real list \<Rightarrow>
   real option \<Rightarrow> int list option \<Rightarrow> (string \<times> real) list \<Rightarrow>
   error + (efnv_result \<times> extended_fnv_correction)" where
  "kumagai_result_from lib entry tensor defect_supercell defect_site_potentials
       bulk_supercell bulk_site_potentials radius_arg excluded_arg kwargs =
     (case call_doped_make_efnv_correction lib (charge_state entry)
             \<lparr>cr_structure = defect_supercell, potentials = defect_site_potentials\<rparr>
             \<lparr>cr_structure = bulk_supercell, potentials = bulk_site_potentials\<rparr>
             tensor (get_defect_supercell_bulk_site_coords lib entry)
             radius_arg excluded_arg kwargs of
        Inl e \<Rightarrow> Inl e
      | Inr efnv_correction \<Rightarrow>
          Inr (\<lparr>correction_energy = efnv_correction_energy lib efnv_correction,
                metadata = [(''pydefect_ExtendedFnvCorrection'', efnv_correction)]\<rparr>,
               efnv_correction))"

text \<open>The entry point up to the construction of the \<^verbatim>\<open>CorrectionResult\<close>.\<close>

definition kumagai_correction_result ::
  "collaborators \<Rightarrow> defect_entry \<Rightarrow> dielectric_input option \<Rightarrow> real option \<Rightarrow> int list option \<Rightarrow>
   pmg_input option \<Rightarrow> pmg_input option \<Rightarrow> (string \<times> real) list \<Rightarrow>
   error + (efnv_result \<times> extended_fnv_correction)" where
  "kumagai_correction_result lib entry dielectric radius_arg excluded_arg defect_outcar bulk_outcar kwargs =
     (case resolve_dielectric entry dielectric of
        Inl e \<Rightarrow> Inl e
      | Inr tensor \<Rightarrow>
        (case resolve_site_potentials lib defect_outcar ''defect''
                (md_defect_site_potentials (metadata_of entry))
                ''defect_site_potentials'' ''Defect OUTCAR (for atomic site potentials)'' of
           Inl e \<Rightarrow> Inl e
         | Inr defect_site_potentials \<Rightarrow>
           (case resolve_site_potentials lib bulk_outcar ''bulk''
                   (md_bulk_site_potentials (metadata_of entry))
                   ''bulk_site_potentials'' ''Bulk OUTCAR (for atomic site potentials)'' of
              Inl e \<Rightarrow> Inl e
            | Inr bulk_site_potentials \<Rightarrow>
                let defect_supercell = remove_oxidation_states lib (get_defect_supercell lib entry);
                    bulk_supercell0 = remove_oxidation_states lib (get_bulk_supercell lib entry)
                in (case match_bulk_lattice lib bulk_supercell0 defect_supercell of
                      Inl e \<Rightarrow> Inl e
                    | Inr bulk_supercell \<Rightarrow>
                        kumagai_result_from lib entry tensor defect_supercell defect_site_potentials
                          bulk_supercell bulk_site_potentials radius_arg excluded_arg kwargs))))"

text \<open>\<^verbatim>\<open>style_file or f"{os.path.dirname(__file__)}/utils/doped.mplstyle"\<close>\<close>

definition style_or_default :: "collaborators \<Rightarrow> string option \<Rightarrow> string" where
  "style_or_default lib style_file =
     (case style_file of
        None \<Rightarrow> module_dirname lib @ ''/utils/doped.mplstyle''
      | Some s \<Rightarrow> (if s = [] then module_dirname lib @ ''/utils/doped.mplstyle'' else s))"

text \<open>\<^verbatim>\<open>if filename: plt.savefig(filename, ...)\<close>\<close>

definition save_if_filename :: "collaborators \<Rightarrow> string option \<Rightarrow> error + unit" where
  "save_if_filename lib filename =
     (case filename of
        None \<Rightarrow> Inr ()
      | Some f \<Rightarrow> (if f = [] then Inr () else savefig lib f))"

definition get_kumagai_correction ::
  "collaborators \<Rightarrow> defect_entry \<Rightarrow> dielectric_input option \<Rightarrow> real option \<Rightarrow> int list option \<Rightarrow>
   pmg_input option \<Rightarrow> pmg_input option \<Rightarrow> bool \<Rightarrow> string option \<Rightarrow> string option \<Rightarrow>
   (string \<times> real) list \<Rightarrow> error + (efnv_result, figure) returned" where
  "get_kumagai_correction lib entry dielectric radius_arg excluded_arg defect_outcar bulk_outcar
       plot filename style_file kwargs =
     (case kumagai_correction_result lib entry dielectric radius_arg excluded_arg
             defect_outcar bulk_outcar kwargs of
        Inl e \<Rightarrow> Inl e
      | Inr (kumagai_result, efnv_correction) \<Rightarrow>
          (if \<not> plot \<and> filename = None then Inr (Alone kumagai_result)
           else
             (case draw_site_potentials lib
                     (format_defect_name lib (entry_name entry) @ '' - eFNV Site Potentials'')
                     efnv_correction (style_or_default lib style_file) of
                Inl e \<Rightarrow> Inl e
              | Inr fig \<Rightarrow>
                  (case save_if_filename lib filename of
                     Inl e \<Rightarrow> Inl e
                   | Inr u \<Rightarrow> Inr (WithFigure kumagai_result fig)))))"

subsection \<open>plot_FNV and get_freysoldt_correction\<close>

text \<open>Truth value of a Python value, as \<^verbatim>\<open>not v\<close> tests it.\<close>

fun py_truthy :: "pyval \<Rightarrow> bool" where
  "py_truthy PyNone = False"
| "py_truthy (PyFloat x) = (x \<noteq> 0)"
| "py_truthy (PyList xs) = (xs \<noteq> [])"
| "py_truthy (PyDict kvs) = (kvs \<noteq> [])"

text \<open>Subscription \<^verbatim>\<open>v[k]\<close>.\<close>

fun py_getitem :: "pyval \<Rightarrow> pykey \<Rightarrow> error + pyval" where
  "py_getitem (PyDict kvs) k =
     (case map_of kvs k of
        None \<Rightarrow> Inl (KeyError (case k of KStr s \<Rightarrow> s | KInt i \<Rightarrow> ''int key''))
      | Some v \<Rightarrow> Inr v)"
| "py_getitem (PyList xs) (KInt i) = py_index xs i"
| "py_getitem (PyList xs) (KStr s) = Inl (TypeError ''list indices must be integers'')"
| "py_getitem v k = Inl (TypeError ''object is not subscriptable'')"

text \<open>Several subscriptions of the same value, in order; the first failure is raised.\<close>

fun py_getitems :: "pyval \<Rightarrow> pykey list \<Rightarrow> error + pyval list" where
  "py_getitems v [] = Inr []"
| "py_getitems v (k # ks) =
     (case py_getitem v k of
        Inl e \<Rightarrow> Inl e
      | Inr x \<Rightarrow> (case py_getitems v ks of Inl e \<Rightarrow> Inl e | Inr xs \<Rightarrow> Inr (x # xs)))"

text \<open>\<^verbatim>\<open>plot_FNV\<close>: the guard, the six reads of \<^verbatim>\<open>plot_data["pot_plot_data"]\<close> and then
  the drawing, which is matplotlib's and is handed the six values, the title, the axes
  (None: a new figure) and the style file.\<close>

definition no_pot_plot_data_error :: error where
  "no_pot_plot_data_error =
     ValueError (''Input `plot_data` has no `pot_plot_data` entry. Cannot plot FNV ''
       @ ''potential alignment before running correction!'')"

definition plot_FNV ::
  "collaborators \<Rightarrow> pyval \<Rightarrow> string option \<Rightarrow> figure option \<Rightarrow> string option \<Rightarrow> error + figure" where
  "plot_FNV lib plot_data title ax style_file =
     (case py_getitem plot_data (KStr ''pot_plot_data'') of
        Inl e \<Rightarrow> Inl e
      | Inr pot_plot_data \<Rightarrow>
          (if \<not> py_truthy pot_plot_data then
             Inl no_pot_plot_data_error
           else
             (case py_getitems pot_plot_data
                     [KStr ''x'', KStr ''Vr'', KStr ''dft_diff'', KStr ''short_range'',
                      KStr ''check'', KStr ''shift''] of
                Inl e \<Rightarrow> Inl e
              | Inr vals \<Rightarrow> draw_fnv lib vals title ax (style_or_default lib style_file))))"

text \<open>Truth value of a LOCPOT argument, as \<^verbatim>\<open>defect_locpot or ...\<close> tests it: an empty
  path and an empty dict are false, pymatgen objects are true.\<close>

fun input_truthy :: "pmg_input option \<Rightarrow> bool" where
  "input_truthy None = False"
| "input_truthy (Some (PathStr p)) = (p \<noteq> [])"
| "input_truthy (Some (DictObj kvs)) = (kvs \<noteq> [])"
| "input_truthy (Some (OtherObj b)) = b"
| "input_truthy (Some x) = True"

definition resolve_locpot :: "pmg_input option \<Rightarrow> pmg_input option \<Rightarrow> string \<Rightarrow> string \<Rightarrow> error + pmg_input" where
  "resolve_locpot locpot_arg cached key display_name =
     (case (if input_truthy locpot_arg then locpot_arg else None) of
        Some x \<Rightarrow> Inr x
      | None \<Rightarrow> get_and_check_metadata cached key display_name)"

definition axis_label_dict :: "(int \<times> string) list" where
  "axis_label_dict = [(0, ''$a$-axis''), (1, ''$b$-axis''), (2, ''$c$-axis'')]"

text \<open>The entry point up to the result of pymatgen's FNV routine.\<close>

definition freysoldt_correction_result ::
  "collaborators \<Rightarrow> defect_entry \<Rightarrow> dielectric_input option \<Rightarrow> pmg_input option \<Rightarrow>
   pmg_input option \<Rightarrow> (string \<times> real) list \<Rightarrow> error + pyval correction_result" where
  "freysoldt_correction_result lib entry dielectric defect_locpot bulk_locpot kwargs =
     (case resolve_dielectric entry dielectric of
        Inl e \<Rightarrow> Inl e
      | Inr tensor \<Rightarrow>
        (case resolve_locpot defect_locpot (md_defect_locpot_dict (metadata_of entry))
                ''defect_locpot_dict'' ''Defect LOCPOT'' of
           Inl e \<Rightarrow> Inl e
         | Inr dl0 \<Rightarrow>
           (case resolve_locpot bulk_locpot (md_bulk_locpot_dict (metadata_of entry))
                   ''bulk_locpot_dict'' ''Bulk LOCPOT'' of
              Inl e \<Rightarrow> Inl e
            | Inr bl0 \<Rightarrow>
              (case check_if_str_and_get_pmg_obj lib dl0 ''locpot'' of
                 Inl e \<Rightarrow> Inl e
               | Inr dl \<Rightarrow>
                 (case check_if_str_and_get_pmg_obj lib bl0 ''locpot'' of
                    Inl e \<Rightarrow> Inl e
                  | Inr bl \<Rightarrow>
                      pmg_freysoldt_correction lib (charge_state entry) tensor dl bl
                        (case dl of
                           DictObj kvs \<Rightarrow> Some (lattice (get_defect_supercell lib entry))
                         | _ \<Rightarrow> None)
                        (get_defect_supercell_bulk_site_coords lib entry)
                        kwargs)))))"

text \<open>The loop \<^verbatim>\<open>for direction in range(3)\<close> of the plotting branch; the axes returned
  by \<^verbatim>\<open>plot_FNV\<close> are dropped.\<close>

fun plot_directions ::
  "collaborators \<Rightarrow> pyval correction_result \<Rightarrow> figure list \<Rightarrow> string option \<Rightarrow> int list \<Rightarrow> error + unit" where
  "plot_directions lib fnv axs style_file [] = Inr ()"
| "plot_directions lib fnv axs style_file (direction # rest) =
     (case py_getitem (metadata fnv) (KStr ''plot_data'') of
        Inl e \<Rightarrow> Inl e
      | Inr pd \<Rightarrow>
        (case py_getitem pd (KInt direction) of
           Inl e \<Rightarrow> Inl e
         | Inr pdd \<Rightarrow>
           (case py_index axs direction of
              Inl e \<Rightarrow> Inl e
            | Inr ax \<Rightarrow>
              (case map_of axis_label_dict direction of
                 None \<Rightarrow> Inl (KeyError ''axis_label_dict'')
               | Some label \<Rightarrow>
                 (case plot_FNV lib pdd (Some label) (Some ax) style_file of
                    Inl e \<Rightarrow> Inl e
                  | Inr a \<Rightarrow> plot_directions lib fnv axs style_file rest)))))"

definition get_freysoldt_correction ::
  "collaborators \<Rightarrow> defect_entry \<Rightarrow> dielectric_input option \<Rightarrow> pmg_input option \<Rightarrow>
   pmg_input option \<Rightarrow> bool \<Rightarrow> string option \<Rightarrow> int option \<Rightarrow> string option \<Rightarrow>
   (string \<times> real) list \<Rightarrow> error + (pyval correction_result, figure) returned" where
  "get_freysoldt_correction lib entry dielectric defect_locpot bulk_locpot plot filename axis
       style_file kwargs =
     (case freysoldt_correction_result lib entry dielectric defect_locpot bulk_locpot kwargs of
        Inl e \<Rightarrow> Inl e
      | Inr fnv_correction \<Rightarrow>
          (if \<not> plot \<and> filename = None then Inr (Alone fnv_correction)
           else
             (case (case axis of
                      None \<Rightarrow>
                        (case plot_directions lib fnv_correction (snd (subplots lib)) style_file
                                [0, 1, 2] of
                           Inl e \<Rightarrow> Inl e
                         | Inr u \<Rightarrow> Inr (fst (subplots lib)))
                    | Some a \<Rightarrow>
                        (case py_getitem (metadata fnv_correction) (KStr ''plot_data'') of
                           Inl e \<Rightarrow> Inl e
                         | Inr pd \<Rightarrow>
                           (case py_getitem pd (KInt a) of
                              Inl e \<Rightarrow> Inl e
                            | Inr pda \<Rightarrow>
                              (case map_of axis_label_dict a of
                                 None \<Rightarrow> Inl (KeyError ''axis_label_dict'')
                               | Some label \<Rightarrow> plot_FNV lib pda (Some label) None None)))) of
                Inl e \<Rightarrow> Inl e
              | Inr fig \<Rightarrow>
                  (case save_if_filename lib filename of
                     Inl e \<Rightarrow> Inl e
                   | Inr u \<Rightarrow> Inr (WithFigure fnv_correction fig)))))"

subsection \<open>The fitted alignment constant\<close>

text \<open>Modelled from the spec: the alignment constant of the eFNV method is computed inside
  pydefect (from the \<^verbatim>\<open>ExtendedFnvCorrection\<close> that the code above builds) and by no
  function of \<^verbatim>\<open>corrections.py\<close>. Section 4.3, step 6: it is the mean of
  (potential difference - model potential) over all sites that have a model potential
  assigned. The mean of no value at all is not a number: None.\<close>

definition sampled_differences :: "potential_site list \<Rightarrow> real list" where
  "sampled_differences ss =
     concat (map (\<lambda>s. case pc_potential s of None \<Rightarrow> [] | Some pc \<Rightarrow> [potential s - pc]) ss)"

definition mean :: "real list \<Rightarrow> real option" where
  "mean xs = (if xs = [] then None else Some (sum_list xs / real (length xs)))"

definition alignment_constant :: "extended_fnv_correction \<Rightarrow> real option" where
  "alignment_constant c = mean (sampled_differences (efnv_sites c))"

subsection \<open>A small cubic example\<close>

text \<open>A cubic supercell of edge 10 with three atoms, a defect at the origin, and
  collaborators with simple closed forms, on which the functions above can be
  evaluated. The values of the collaborators are stand-ins chosen for evaluation only;
  \<open>volume\<close> is the volume of a diagonal lattice and \<open>scale_lattice\<close> the uniform
  rescaling of a cubic cell to a given volume.\<close>

definition cubic :: "real \<Rightarrow> matrix" where
  "cubic a = [[a, 0, 0], [0, a, 0], [0, 0, a]]"

definition example_sites :: "periodic_site list" where
  "example_sites =
     [\<lparr>specie = ''Cd'', frac_coords = [1/10, 0, 0]\<rparr>,
      \<lparr>specie = ''Te'', frac_coords = [1/2, 1/4, 0]\<rparr>,
      \<lparr>specie = ''Te'', frac_coords = [1/4, 1/2, 0]\<rparr>]"

definition example_defect_supercell :: supercell where
  "example_defect_supercell = \<lparr>lattice = cubic 10, sites = example_sites\<rparr>"

definition example_bulk_supercell :: supercell where
  "example_bulk_supercell = \<lparr>lattice = cubic 10, sites = example_sites\<rparr>"

definition example_plot_data :: pyval where
  "example_plot_data =
     PyDict [(KStr ''pot_plot_data'',
       PyDict [(KStr ''x'', PyList [PyFloat 0, PyFloat 5]),
               (KStr ''Vr'', PyList [PyFloat 1, PyFloat 2]),
               (KStr ''dft_diff'', PyList [PyFloat 1, PyFloat 3]),
               (KStr ''short_range'', PyList [PyFloat 0, PyFloat 1]),
               (KStr ''check'', PyList [PyFloat 0, PyFloat 1]),
               (KStr ''shift'', PyFloat (1/2))])]"

definition example_fnv_metadata :: pyval where
  "example_fnv_metadata =
     PyDict [(KStr ''plot_data'',
       PyDict [(KInt 0, example_plot_data), (KInt 1, example_plot_data),
               (KInt 2, example_plot_data)])]"

definition example_fnv_result :: "pyval correction_result" where
  "example_fnv_result = \<lparr>correction_energy = 3/4, metadata = example_fnv_metadata\<rparr>"


definition example_lib :: collaborators where
  "example_lib =
     \<lparr>lattice_eq = (\<lambda>a b. a = b),
      get_distance = (\<lambda>m a b. 10 * sum_list (map2 (\<lambda>x y. \<bar>x - y\<bar>) a b)),
      volume = (\<lambda>m. m ! 0 ! 0 * m ! 1 ! 1 * m ! 2 ! 2),
      scale_lattice = (\<lambda>s v. s\<lparr>lattice := cubic (root 3 v)\<rparr>),
      remove_oxidation_states = (\<lambda>s. s),
      atom_mapping = (\<lambda>d b. [(0, 0), (1, 1), (2, 2)]),
      defect_center_coord = (\<lambda>d b. [0, 0, 0]),
      ewald_lattice_energy = (\<lambda>l d a. 1/4),
      ewald_atomic_site_potential = (\<lambda>l d a rel. sum_list rel),
      calc_max_sphere_radius = (\<lambda>m. 5),
      ewald_accuracy = 15,
      efnv_correction_energy = point_charge_correction,
      pmg_freysoldt_correction =
        (\<lambda>q d dl bl l c kw. Inr example_fnv_result),
      get_defect_supercell = entry_defect_supercell,
      get_bulk_supercell = entry_bulk_supercell,
      get_defect_supercell_bulk_site_coords = entry_site_coords,
      get_locpot = (\<lambda>p. Inr (Locpot 0)),
      get_outcar = (\<lambda>p. Inr \<lparr>electrostatic_potential = Some [-1, -2, -2]\<rparr>),
      format_defect_name = (\<lambda>n. n),
      draw_fnv = (\<lambda>vals title ax style. Inr (Figure 1)),
      subplots = (Figure 0, [Figure 1, Figure 2, Figure 3]),
      module_dirname = ''doped'',
      draw_site_potentials = (\<lambda>title c style. Inr (Figure 7)),
      savefig = (\<lambda>f. Inr ())\<rparr>"

definition example_defect_results :: calc_results where
  "example_defect_results = \<lparr>cr_structure = example_defect_supercell, potentials = [3, 2, 2]\<rparr>"

definition example_bulk_results :: calc_results where
  "example_bulk_results = \<lparr>cr_structure = example_bulk_supercell, potentials = [1, 1, 1]\<rparr>"

definition example_metadata :: calculation_metadata where
  "example_metadata =
     \<lparr>md_dielectric = Some (DScalar 9),
      md_defect_locpot_dict = Some (DictObj [(0, [1, 2]), (1, [1, 2]), (2, [1, 2])]),
      md_bulk_locpot_dict = Some (DictObj [(0, [1, 1]), (1, [1, 1]), (2, [1, 1])]),
      md_defect_site_potentials = Some [3, 2, 2],
      md_bulk_site_potentials = Some [1, 1, 1]\<rparr>"

definition example_entry :: defect_entry where
  "example_entry =
     \<lparr>entry_name = ''v_Cd_-2'', charge_state = - 2, metadata_of = example_metadata,
      entry_defect_supercell = example_defect_supercell,
      entry_bulk_supercell = example_bulk_supercell,
      entry_site_coords = Some [0, 0, 0]\<rparr>"

text \<open>The eFNV object that the example produces for charge -2, no exclusion and the
  default radius.\<close>

definition example_efnv :: extended_fnv_correction where
  "example_efnv =
     \<lparr>charge = - 2,
      point_charge_correction = - (1/4) * 4 * 180.95128169876497,
      defect_region_radius = 5,
      efnv_sites =
        [\<lparr>ps_specie = ''Cd'', distance = 1, potential = 2, pc_potential = None\<rparr>,
         \<lparr>ps_specie = ''Te'', distance = 15/2, potential = 1,
            pc_potential = Some (3/4 * (- 2) * 180.95128169876497)\<rparr>,
         \<lparr>ps_specie = ''Te'', distance = 15/2, potential = 1,
            pc_potential = Some (3/4 * (- 2) * 180.95128169876497)\<rparr>],
      defect_coords = [0, 0, 0]\<rparr>"

text \<open>The same run with atom 2 excluded: its site is missing.\<close>

definition example_efnv_excluded :: extended_fnv_correction where
  "example_efnv_excluded = example_efnv\<lparr>efnv_sites := take 2 (efnv_sites example_efnv)\<rparr>"

text \<open>Entries whose bulk or defect lattice deviates from the cubic cell of edge 10: a
  bulk cell larger by 0.005 per edge, one larger by 0.01005 per edge, one larger by 1
  per edge, and a defect cell stretched by 0.005 along c only.\<close>

definition strained_bulk_supercell :: supercell where
  "strained_bulk_supercell = \<lparr>lattice = cubic (10 + 201/20000), sites = example_sites\<rparr>"

definition strained_entry :: defect_entry where
  "strained_entry = example_entry\<lparr>entry_bulk_supercell := strained_bulk_supercell\<rparr>"

definition close_bulk_supercell :: supercell where
  "close_bulk_supercell = \<lparr>lattice = cubic (10 + 1/200), sites = example_sites\<rparr>"

definition close_entry :: defect_entry where
  "close_entry = example_entry\<lparr>entry_bulk_supercell := close_bulk_supercell\<rparr>"

definition skewed_defect_supercell :: supercell where
  "skewed_defect_supercell =
     \<lparr>lattice = [[10, 0, 0], [0, 10, 0], [0, 0, 10 + 1/200]], sites = example_sites\<rparr>"

definition skewed_entry :: defect_entry where
  "skewed_entry = example_entry\<lparr>entry_defect_supercell := skewed_defect_supercell\<rparr>"

definition mismatched_bulk_supercell :: supercell where
  "mismatched_bulk_supercell = \<lparr>lattice = cubic 11, sites = example_sites\<rparr>"

definition mismatched_entry :: defect_entry where
  "mismatched_entry = example_entry\<lparr>entry_bulk_supercell := mismatched_bulk_supercell\<rparr>"

text \<open>The \<^verbatim>\<open>CorrectionResult\<close> of the example (with the stand-in energy).\<close>

definition example_kumagai_result :: efnv_result where
  "example_kumagai_result =
     \<lparr>correction_energy = point_charge_correction example_efnv,
      metadata = [(''pydefect_ExtendedFnvCorrection'', example_efnv)]\<rparr>"

text \<open>An entry without cached data, an OUTCAR without core potentials and one with.\<close>

definition empty_metadata :: calculation_metadata where
  "empty_metadata =
     \<lparr>md_dielectric = None, md_defect_locpot_dict = None, md_bulk_locpot_dict = None,
      md_defect_site_potentials = None, md_bulk_site_potentials = None\<rparr>"

definition bare_entry :: defect_entry where
  "bare_entry = example_entry\<lparr>metadata_of := empty_metadata\<rparr>"

definition incomplete_outcar :: pmg_input where
  "incomplete_outcar = OutcarObj \<lparr>electrostatic_potential = None\<rparr>"

definition complete_outcar :: pmg_input where
  "complete_outcar = OutcarObj \<lparr>electrostatic_potential = Some [- 3, - 2, - 2]\<rparr>"

text \<open>The example collaborators with another energy of the eFNV object: the point-charge
  term minus charge times alignment constant.\<close>

definition aligned_lib :: collaborators where
  "aligned_lib =
     example_lib\<lparr>efnv_correction_energy :=
       (\<lambda>c. point_charge_correction c
             - real_of_int (charge c) * (case alignment_constant c of None \<Rightarrow> 0 | Some a \<Rightarrow> a))\<rparr>"


text \<open>The eFNV objects that the example produces with the defect centre at
  \<open>[0.1, 0, 0]\<close>, and with the centre at the origin and \<^verbatim>\<open>unit_conversion=1\<close>.\<close>

definition example_efnv_offcentre :: extended_fnv_correction where
  "example_efnv_offcentre =
     \<lparr>charge = - 2,
      point_charge_correction = - (1/4) * 4 * 180.95128169876497,
      defect_region_radius = 5,
      efnv_sites =
        [\<lparr>ps_specie = ''Cd'', distance = 0, potential = 2, pc_potential = None\<rparr>,
         \<lparr>ps_specie = ''Te'', distance = 13/2, potential = 1,
            pc_potential = Some (13/20 * (- 2) * 180.95128169876497)\<rparr>,
         \<lparr>ps_specie = ''Te'', distance = 13/2, potential = 1,
            pc_potential = Some (13/20 * (- 2) * 180.95128169876497)\<rparr>],
      defect_coords = [1/10, 0, 0]\<rparr>"

definition example_efnv_unit :: extended_fnv_correction where
  "example_efnv_unit =
     \<lparr>charge = - 2,
      point_charge_correction = - 1,
      defect_region_radius = 5,
      efnv_sites =
        [\<lparr>ps_specie = ''Cd'', distance = 1, potential = 2, pc_potential = None\<rparr>,
         \<lparr>ps_specie = ''Te'', distance = 15/2, potential = 1, pc_potential = Some (- (3/2))\<rparr>,
         \<lparr>ps_specie = ''Te'', distance = 15/2, potential = 1, pc_potential = Some (- (3/2))\<rparr>],
      defect_coords = [0, 0, 0]\<rparr>"


definition neutral_efnv :: extended_fnv_correction where
  "neutral_efnv =
     \<lparr>charge = 0,
      point_charge_correction = 0,
      defect_region_radius = 5,
      efnv_sites =
        [\<lparr>ps_specie = ''Cd'', distance = 1, potential = 2, pc_potential = None\<rparr>,
         \<lparr>ps_specie = ''Te'', distance = 15/2, potential = 1, pc_potential = Some 0\<rparr>,
         \<lparr>ps_specie = ''Te'', distance = 15/2, potential = 1, pc_potential = Some 0\<rparr>],
      defect_coords = [0, 0, 0]\<rparr>"







section \<open>Properties\<close>

subsection \<open>Evaluation of the example\<close>

lemmas example_defs =
  example_lib_def example_defect_results_def example_bulk_results_def
  example_defect_supercell_def example_bulk_supercell_def example_sites_def cubic_def
  example_entry_def example_metadata_def

lemmas efnv_defs =
  doped_make_efnv_correction_def make_potential_site_def py_index_def assign_pc_potential_def
  unit_conversion_default_def center_coords_def excluded_list_def region_radius_def
  point_charge_term_def

lemma example_run:
  "doped_make_efnv_correction example_lib (- 2) example_defect_results example_bulk_results
     (cubic 9) None (Some [0, 0, 0]) 15 unit_conversion_default None = Inr example_efnv"
  by (simp add: efnv_defs example_defs example_efnv_def)

subsection \<open>The object built by doped_make_efnv_correction\<close>

lemma doped_make_efnv_correction_Inr:
  assumes "doped_make_efnv_correction lib q cr pcr diel radius_arg coords_arg acc uc excluded_arg = Inr r"
  shows "\<exists>srs. collect_sites lib cr pcr (center_coords lib cr pcr coords_arg)
                  (excluded_list excluded_arg)
                  (atom_mapping lib (cr_structure cr) (cr_structure pcr)) = Inr srs
           \<and> r = \<lparr>charge = q,
                   point_charge_correction =
                     point_charge_term lib (lattice (cr_structure cr)) diel acc q * uc,
                   defect_region_radius = region_radius lib (lattice (cr_structure cr)) radius_arg,
                   efnv_sites = map (assign_pc_potential lib (lattice (cr_structure cr)) diel acc q uc
                                      (region_radius lib (lattice (cr_structure cr)) radius_arg)) srs,
                   defect_coords = center_coords lib cr pcr coords_arg\<rparr>"
  using assms
  by (auto simp: doped_make_efnv_correction_def Let_def split: if_splits sum.splits)

lemma collect_sites_Inr_iff:
  "collect_sites lib cr pcr dc excl m = Inr srs \<longleftrightarrow>
   list_all2 (\<lambda>dp sr. make_potential_site lib cr pcr dc dp = Inr sr)
     (filter (\<lambda>dp. fst dp \<notin> set excl) m) srs"
proof (induction m arbitrary: srs)
  case Nil
  then show ?case by auto
next
  case (Cons dp m)
  show ?case
  proof (cases "fst dp \<in> set excl")
    case True
    then show ?thesis using Cons.IH by simp
  next
    case False
    show ?thesis
    proof (cases "make_potential_site lib cr pcr dc dp")
      case (Inl e)
      with False show ?thesis by (auto simp: list_all2_Cons1)
    next
      case mk: (Inr sr)
      show ?thesis
      proof (cases "collect_sites lib cr pcr dc excl m")
        case (Inl e)
        with Cons.IH have "\<And>zs. \<not> list_all2 (\<lambda>dp sr. make_potential_site lib cr pcr dc dp = Inr sr)
                 (filter (\<lambda>dp. fst dp \<notin> set excl) m) zs"
          by simp
        with False mk Inl show ?thesis by (auto simp: list_all2_Cons1)
      next
        case (Inr rest)
        with Cons.IH have "\<And>zs. list_all2 (\<lambda>dp sr. make_potential_site lib cr pcr dc dp = Inr sr)
                 (filter (\<lambda>dp. fst dp \<notin> set excl) m) zs \<longleftrightarrow> zs = rest"
          by (metis sum.inject(2))
        with False mk Inr show ?thesis by (auto simp: list_all2_Cons1)
      qed
    qed
  qed
qed

lemma make_potential_site_pc_None:
  assumes "make_potential_site lib cr pcr dc dp = Inr (s, rel)"
  shows "pc_potential s = None"
  using assms
  by (auto simp: make_potential_site_def split: sum.splits)

lemma assign_pc_potential_charged:
  assumes "q \<noteq> 0" and "pc_potential s = None"
  shows "assign_pc_potential lib latt diel acc q uc radius (s, rel) =
           s\<lparr>pc_potential :=
                (if distance s > radius
                 then Some (ewald_atomic_site_potential lib latt diel acc rel * real_of_int q * uc)
                 else None)\<rparr>"
  using assms by (simp add: assign_pc_potential_def)

subsection \<open>Excluded indices\<close>

lemma example_run_excluded:
  "doped_make_efnv_correction example_lib (- 2) example_defect_results example_bulk_results
     (cubic 9) None (Some [0, 0, 0]) 15 unit_conversion_default (Some [2]) = Inr example_efnv_excluded"
  by (simp add: efnv_defs example_defs example_efnv_def example_efnv_excluded_def)







lemma assign_pc_potential_potential:
  "potential (assign_pc_potential lib latt diel acc q uc radius sr) = potential (fst sr)"
  by (simp add: assign_pc_potential_def)


subsection \<open>Lattice comparison in get_kumagai_correction\<close>

lemma example_lib_sel:
  "lattice_eq example_lib = (\<lambda>a b. a = b)"
  "volume example_lib = (\<lambda>m. m ! 0 ! 0 * m ! 1 ! 1 * m ! 2 ! 2)"
  "scale_lattice example_lib = (\<lambda>s v. s\<lparr>lattice := cubic (root 3 v)\<rparr>)"
  "remove_oxidation_states example_lib = (\<lambda>s. s)"
  "ewald_accuracy example_lib = 15"
  "efnv_correction_energy example_lib = point_charge_correction"
  "get_defect_supercell example_lib = entry_defect_supercell"
  "get_bulk_supercell example_lib = entry_bulk_supercell"
  "get_defect_supercell_bulk_site_coords example_lib = entry_site_coords"
  "format_defect_name example_lib = (\<lambda>n. n)"
  "draw_site_potentials example_lib = (\<lambda>title c style. Inr (Figure 7))"
  "savefig example_lib = (\<lambda>f. Inr ())"
  "module_dirname example_lib = ''doped''"
  "subplots example_lib = (Figure 0, [Figure 1, Figure 2, Figure 3])"
  "draw_fnv example_lib = (\<lambda>vals title ax style. Inr (Figure 1))"
  "pmg_freysoldt_correction example_lib = (\<lambda>q d dl bl l c kw. Inr example_fnv_result)"
  "get_locpot example_lib = (\<lambda>p. Inr (Locpot 0))"
  "get_outcar example_lib = (\<lambda>p. Inr \<lparr>electrostatic_potential = Some [- 1, - 2, - 2]\<rparr>)"
  by (simp_all add: example_lib_def)

lemma example_entry_sel:
  "charge_state example_entry = - 2"
  "entry_name example_entry = ''v_Cd_-2''"
  "metadata_of example_entry = example_metadata"
  "entry_defect_supercell example_entry = example_defect_supercell"
  "entry_bulk_supercell example_entry = example_bulk_supercell"
  "entry_site_coords example_entry = Some [0, 0, 0]"
  by (simp_all add: example_entry_def)

lemma example_inputs:
  "resolve_dielectric example_entry None = Inr (cubic 9)"
  "resolve_site_potentials lib None ''defect'' (md_defect_site_potentials example_metadata)
     ''defect_site_potentials'' ''Defect OUTCAR (for atomic site potentials)'' = Inr [3, 2, 2]"
  "resolve_site_potentials lib None ''bulk'' (md_bulk_site_potentials example_metadata)
     ''bulk_site_potentials'' ''Bulk OUTCAR (for atomic site potentials)'' = Inr [1, 1, 1]"
  by (simp_all add: resolve_dielectric_def resolve_site_potentials_def get_and_check_metadata_def
        check_if_None_and_raise_error_if_so_def convert_dielectric_to_tensor_def
        example_entry_def example_metadata_def cubic_def)

lemma example_call:
  "call_doped_make_efnv_correction example_lib (- 2)
     \<lparr>cr_structure = example_defect_supercell, potentials = [3, 2, 2]\<rparr>
     \<lparr>cr_structure = example_bulk_supercell, potentials = [1, 1, 1]\<rparr>
     (cubic 9) (Some [0, 0, 0]) None None [] = Inr example_efnv"
  using example_run
  by (simp add: call_doped_make_efnv_correction_def example_lib_sel
        example_defect_results_def example_bulk_results_def)

lemma example_match:
  "match_bulk_lattice example_lib example_bulk_supercell example_defect_supercell
     = Inr example_bulk_supercell"
  by (simp add: match_bulk_lattice_def example_lib_sel example_bulk_supercell_def
        example_defect_supercell_def)

lemma example_kumagai_run:
  "kumagai_correction_result example_lib example_entry None None None None None []
     = Inr (example_kumagai_result, example_efnv)"
  by (simp add: kumagai_correction_result_def kumagai_result_from_def example_inputs
        example_lib_sel example_entry_sel example_match example_call example_kumagai_result_def)

lemma strained_entry_sel:
  "charge_state strained_entry = - 2"
  "entry_name strained_entry = ''v_Cd_-2''"
  "metadata_of strained_entry = example_metadata"
  "entry_defect_supercell strained_entry = example_defect_supercell"
  "entry_bulk_supercell strained_entry = strained_bulk_supercell"
  "entry_site_coords strained_entry = Some [0, 0, 0]"
  "resolve_dielectric strained_entry None = Inr (cubic 9)"
  using example_inputs(1)
  by (simp_all add: strained_entry_def example_entry_def resolve_dielectric_def)

lemma root3_1000: "root 3 1000 = 10"
proof -
  have "root 3 ((10::real) ^ 3) = 10"
    by (rule real_root_power_cancel) simp_all
  then show ?thesis by simp
qed

lemma strained_match:
  "match_bulk_lattice example_lib strained_bulk_supercell example_defect_supercell
     = Inr example_bulk_supercell"
  by (simp add: match_bulk_lattice_def example_lib_sel allclose_def
        rtol_default_def strained_bulk_supercell_def example_defect_supercell_def
        example_bulk_supercell_def cubic_def root3_1000)

lemma strained_kumagai_run:
  "kumagai_correction_result example_lib strained_entry None None None None None []
     = Inr (example_kumagai_result, example_efnv)"
  by (simp add: kumagai_correction_result_def kumagai_result_from_def example_inputs
        example_lib_sel strained_entry_sel strained_match example_call example_kumagai_result_def)

text \<open>
  Claim C4. The claim requires a ValueError whenever the two lattices differ by more
  than 0.01 in some element, and the comment above the check in the source says the same
  (tolerable: below 0.01). The code does not do that: for a defect cell of edge 10 and a
  bulk cell of edge 10.01005 the element difference 0.01005 exceeds 0.01, yet
  \<^verbatim>\<open>np.allclose(..., atol=1e-2)\<close> accepts it, because its tolerance is
  \<open>atol + rtol * |b|\<close> with the default \<open>rtol = 1e-5\<close>; the bulk cell is rescaled and
  a result is returned.
\<close>

theorem lattice_tolerance_failing_input:
  "\<bar>lattice strained_bulk_supercell ! 0 ! 0 - lattice example_defect_supercell ! 0 ! 0\<bar> > 1/100
   \<and> \<not> lattice_eq example_lib (lattice strained_bulk_supercell) (lattice example_defect_supercell)
   \<and> get_defect_supercell example_lib strained_entry = example_defect_supercell
   \<and> get_bulk_supercell example_lib strained_entry = strained_bulk_supercell
   \<and> get_kumagai_correction example_lib strained_entry None None None None None False None None []
       = Inr (Alone example_kumagai_result)"
  using strained_kumagai_run
  by (simp add: get_kumagai_correction_def example_lib_sel strained_entry_sel
        strained_bulk_supercell_def example_defect_supercell_def cubic_def)


lemma allclose_within:
  assumes "list_all2 (list_all2 (\<lambda>x y. \<bar>x - y\<bar> \<le> atol)) a b" and "0 \<le> rtol"
  shows "allclose a b rtol atol"
  unfolding allclose_def
proof (rule list_all2_mono [OF assms(1)])
  fix xs ys :: "real list"
  assume "list_all2 (\<lambda>x y. \<bar>x - y\<bar> \<le> atol) xs ys"
  then show "list_all2 (\<lambda>x y. \<bar>x - y\<bar> \<le> atol + rtol * \<bar>y\<bar>) xs ys"
  proof (rule list_all2_mono)
    fix x y :: real
    assume "\<bar>x - y\<bar> \<le> atol"
    moreover have "0 \<le> rtol * \<bar>y\<bar>" using assms(2) by simp
    ultimately show "\<bar>x - y\<bar> \<le> atol + rtol * \<bar>y\<bar>" by linarith
  qed
qed

lemma allclose_element:
  assumes "allclose a b rtol atol" and "i < length a" and "j < length (a ! i)"
  shows "\<bar>a ! i ! j - b ! i ! j\<bar> \<le> atol + rtol * \<bar>b ! i ! j\<bar>"
proof -
  from assms(1,2) have "list_all2 (\<lambda>x y. \<bar>x - y\<bar> \<le> atol + rtol * \<bar>y\<bar>) (a ! i) (b ! i)"
    unfolding allclose_def by (rule list_all2_nthD)
  from list_all2_nthD [OF this assms(3)] show ?thesis .
qed

text \<open>
  The three outcomes of the comparison, once the dielectric and both sets of site
  potentials are obtained, with \<open>D\<close> the defect and \<open>B\<close> the bulk supercell: equal
  lattices (pymatgen's equality) leave \<open>B\<close> as it is; unequal lattices that agree
  element-wise within 0.01 make the computation go on with \<open>B\<close> rescaled to the volume
  of \<open>D\<close>, which then still fails with SupercellError inside
  \<^verbatim>\<open>doped_make_efnv_correction\<close> when the rescaled lattice is unequal to that of \<open>D\<close>;
  unequal lattices with an element that differs by more than 0.01 + |element of D| /
  100000 raise the ValueError about different lattices.
\<close>

lemma lattice_mismatch_handling:
  assumes "resolve_dielectric entry dielectric = Inr tensor"
    and "resolve_site_potentials lib defect_outcar ''defect''
           (md_defect_site_potentials (metadata_of entry))
           ''defect_site_potentials'' ''Defect OUTCAR (for atomic site potentials)'' = Inr dp"
    and "resolve_site_potentials lib bulk_outcar ''bulk''
           (md_bulk_site_potentials (metadata_of entry))
           ''bulk_site_potentials'' ''Bulk OUTCAR (for atomic site potentials)'' = Inr bp"
    and "D = remove_oxidation_states lib (get_defect_supercell lib entry)"
    and "B = remove_oxidation_states lib (get_bulk_supercell lib entry)"
  shows "(lattice_eq lib (lattice B) (lattice D) \<longrightarrow>
            kumagai_correction_result lib entry dielectric radius_arg excluded_arg
              defect_outcar bulk_outcar kwargs
            = kumagai_result_from lib entry tensor D dp B bp radius_arg excluded_arg kwargs)
       \<and> (\<not> lattice_eq lib (lattice B) (lattice D)
            \<and> list_all2 (list_all2 (\<lambda>x y. \<bar>x - y\<bar> \<le> 1/100)) (lattice B) (lattice D) \<longrightarrow>
            kumagai_correction_result lib entry dielectric radius_arg excluded_arg
              defect_outcar bulk_outcar kwargs
            = kumagai_result_from lib entry tensor D dp
                (scale_lattice lib B (volume lib (lattice D))) bp radius_arg excluded_arg kwargs)
       \<and> (\<not> lattice_eq lib (lattice D) (lattice (scale_lattice lib B (volume lib (lattice D))))
            \<and> list_all (\<lambda>kv. fst kv = ''accuracy'' \<or> fst kv = ''unit_conversion'') kwargs \<longrightarrow>
            kumagai_result_from lib entry tensor D dp
                (scale_lattice lib B (volume lib (lattice D))) bp radius_arg excluded_arg kwargs
            = Inl (SupercellError ''The lattice constants for defect and perfect models are different''))
       \<and> (\<not> lattice_eq lib (lattice B) (lattice D)
            \<and> (\<exists>i j. i < length (lattice B) \<and> j < length (lattice B ! i)
                  \<and> \<bar>lattice B ! i ! j - lattice D ! i ! j\<bar>
                        > 1/100 + \<bar>lattice D ! i ! j\<bar> / 100000) \<longrightarrow>
            get_kumagai_correction lib entry dielectric radius_arg excluded_arg
              defect_outcar bulk_outcar plot filename style_file kwargs
            = Inl different_lattices_error)"
proof (intro conjI impI)
  assume "lattice_eq lib (lattice B) (lattice D)"
  then show "kumagai_correction_result lib entry dielectric radius_arg excluded_arg
              defect_outcar bulk_outcar kwargs
            = kumagai_result_from lib entry tensor D dp B bp radius_arg excluded_arg kwargs"
    using assms by (simp add: kumagai_correction_result_def match_bulk_lattice_def Let_def)
next
  assume a: "\<not> lattice_eq lib (lattice B) (lattice D)
            \<and> list_all2 (list_all2 (\<lambda>x y. \<bar>x - y\<bar> \<le> 1/100)) (lattice B) (lattice D)"
  then have "allclose (lattice B) (lattice D) rtol_default (1/100)"
    by (intro allclose_within) (simp_all add: rtol_default_def)
  with a show "kumagai_correction_result lib entry dielectric radius_arg excluded_arg
              defect_outcar bulk_outcar kwargs
            = kumagai_result_from lib entry tensor D dp
                (scale_lattice lib B (volume lib (lattice D))) bp radius_arg excluded_arg kwargs"
    using assms by (simp add: kumagai_correction_result_def match_bulk_lattice_def Let_def)
next
  assume "\<not> lattice_eq lib (lattice D) (lattice (scale_lattice lib B (volume lib (lattice D))))
            \<and> list_all (\<lambda>kv. fst kv = ''accuracy'' \<or> fst kv = ''unit_conversion'') kwargs"
  then show "kumagai_result_from lib entry tensor D dp
                (scale_lattice lib B (volume lib (lattice D))) bp radius_arg excluded_arg kwargs
            = Inl (SupercellError ''The lattice constants for defect and perfect models are different'')"
    by (simp add: kumagai_result_from_def call_doped_make_efnv_correction_def
          doped_make_efnv_correction_def)
next
  assume a: "\<not> lattice_eq lib (lattice B) (lattice D)
            \<and> (\<exists>i j. i < length (lattice B) \<and> j < length (lattice B ! i)
                  \<and> \<bar>lattice B ! i ! j - lattice D ! i ! j\<bar>
                        > 1/100 + \<bar>lattice D ! i ! j\<bar> / 100000)"
  then obtain i j where ij: "i < length (lattice B)" "j < length (lattice B ! i)"
    "\<bar>lattice B ! i ! j - lattice D ! i ! j\<bar> > 1/100 + \<bar>lattice D ! i ! j\<bar> / 100000"
    by blast
  have "\<not> allclose (lattice B) (lattice D) rtol_default (1/100)"
  proof
    assume "allclose (lattice B) (lattice D) rtol_default (1/100)"
    from allclose_element [OF this ij(1,2)] ij(3) show False
      by (simp add: rtol_default_def)
  qed
  with a have "kumagai_correction_result lib entry dielectric radius_arg excluded_arg
              defect_outcar bulk_outcar kwargs = Inl different_lattices_error"
    using assms by (simp add: kumagai_correction_result_def match_bulk_lattice_def Let_def)
  then show "get_kumagai_correction lib entry dielectric radius_arg excluded_arg
              defect_outcar bulk_outcar plot filename style_file kwargs
            = Inl different_lattices_error"
    by (simp add: get_kumagai_correction_def)
qed


lemma other_entry_sel:
  "metadata_of close_entry = example_metadata"
  "resolve_dielectric close_entry None = Inr (cubic 9)"
  "metadata_of skewed_entry = example_metadata"
  "resolve_dielectric skewed_entry None = Inr (cubic 9)"
  "metadata_of mismatched_entry = example_metadata"
  "resolve_dielectric mismatched_entry None = Inr (cubic 9)"
  "charge_state close_entry = - 2"
  "entry_site_coords close_entry = Some [0, 0, 0]"
  "entry_defect_supercell close_entry = example_defect_supercell"
  "entry_bulk_supercell close_entry = close_bulk_supercell"
  "entry_defect_supercell skewed_entry = skewed_defect_supercell"
  "entry_bulk_supercell skewed_entry = example_bulk_supercell"
  "entry_defect_supercell mismatched_entry = example_defect_supercell"
  "entry_bulk_supercell mismatched_entry = mismatched_bulk_supercell"
  using example_inputs(1)
  by (simp_all add: close_entry_def skewed_entry_def mismatched_entry_def example_entry_def
        resolve_dielectric_def)

lemma example_result_from:
  assumes "charge_state e = - 2" and "entry_site_coords e = Some [0, 0, 0]"
  shows "kumagai_result_from example_lib e (cubic 9) example_defect_supercell [3, 2, 2]
           example_bulk_supercell [1, 1, 1] None None []
         = Inr (example_kumagai_result, example_efnv)"
  using assms
  by (simp add: kumagai_result_from_def example_call example_lib_sel example_kumagai_result_def)

lemma example_site_potentials:
  assumes "metadata_of e = example_metadata"
  shows "resolve_site_potentials example_lib None ''defect''
           (md_defect_site_potentials (metadata_of e))
           ''defect_site_potentials'' ''Defect OUTCAR (for atomic site potentials)'' = Inr [3, 2, 2]"
    and "resolve_site_potentials example_lib None ''bulk''
           (md_bulk_site_potentials (metadata_of e))
           ''bulk_site_potentials'' ''Bulk OUTCAR (for atomic site potentials)'' = Inr [1, 1, 1]"
  using assms by (simp_all add: example_inputs)

lemma example_supercells:
  "entry_defect_supercell e = remove_oxidation_states example_lib (get_defect_supercell example_lib e)"
  "entry_bulk_supercell e = remove_oxidation_states example_lib (get_bulk_supercell example_lib e)"
  by (simp_all add: example_lib_sel)

lemma lattice_mismatch_handling_examples:
  "kumagai_correction_result example_lib example_entry None None None None None []
     = Inr (example_kumagai_result, example_efnv)
   \<and> kumagai_correction_result example_lib close_entry None None None None None []
     = Inr (example_kumagai_result, example_efnv)
   \<and> kumagai_correction_result example_lib skewed_entry None None None None None []
     = Inl (SupercellError ''The lattice constants for defect and perfect models are different'')
   \<and> get_kumagai_correction example_lib mismatched_entry None None None None None False None None []
     = Inl different_lattices_error"
proof -
  have 1: "kumagai_correction_result example_lib example_entry None None None None None []
             = Inr (example_kumagai_result, example_efnv)"
  proof -
    have eq: "lattice_eq example_lib (lattice (entry_bulk_supercell example_entry))
                (lattice (entry_defect_supercell example_entry))"
      by (simp add: example_lib_sel example_entry_sel example_bulk_supercell_def
            example_defect_supercell_def)
    from lattice_mismatch_handling
           [OF example_inputs(1) example_site_potentials [OF example_entry_sel(3)]
               example_supercells, of None None "[]"] eq
    have "kumagai_correction_result example_lib example_entry None None None None None []
            = kumagai_result_from example_lib example_entry (cubic 9)
                (entry_defect_supercell example_entry) [3, 2, 2]
                (entry_bulk_supercell example_entry) [1, 1, 1] None None []"
      by blast
    then show ?thesis
      by (simp add: example_entry_sel example_result_from)
  qed
  have 2: "kumagai_correction_result example_lib close_entry None None None None None []
             = Inr (example_kumagai_result, example_efnv)"
  proof -
    have ne: "\<not> lattice_eq example_lib (lattice (entry_bulk_supercell close_entry))
                (lattice (entry_defect_supercell close_entry))"
      and cl: "list_all2 (list_all2 (\<lambda>x y. \<bar>x - y\<bar> \<le> 1/100))
                 (lattice (entry_bulk_supercell close_entry))
                 (lattice (entry_defect_supercell close_entry))"
      by (simp_all add: example_lib_sel other_entry_sel close_bulk_supercell_def
            example_defect_supercell_def cubic_def)
    have sc: "scale_lattice example_lib (entry_bulk_supercell close_entry)
                (volume example_lib (lattice (entry_defect_supercell close_entry)))
              = example_bulk_supercell"
      by (simp add: example_lib_sel other_entry_sel close_bulk_supercell_def
            example_defect_supercell_def example_bulk_supercell_def cubic_def root3_1000)
    from lattice_mismatch_handling
           [OF other_entry_sel(2) example_site_potentials [OF other_entry_sel(1)]
               example_supercells, of None None "[]"] ne cl
    have "kumagai_correction_result example_lib close_entry None None None None None []
            = kumagai_result_from example_lib close_entry (cubic 9)
                (entry_defect_supercell close_entry) [3, 2, 2]
                (scale_lattice example_lib (entry_bulk_supercell close_entry)
                   (volume example_lib (lattice (entry_defect_supercell close_entry))))
                [1, 1, 1] None None []"
      by blast
    then show ?thesis
      unfolding sc by (simp add: other_entry_sel example_result_from)
  qed
  have 3: "kumagai_correction_result example_lib skewed_entry None None None None None []
     = Inl (SupercellError ''The lattice constants for defect and perfect models are different'')"
  proof -
    have ne: "\<not> lattice_eq example_lib (lattice (entry_bulk_supercell skewed_entry))
                (lattice (entry_defect_supercell skewed_entry))"
      and cl: "list_all2 (list_all2 (\<lambda>x y. \<bar>x - y\<bar> \<le> 1/100))
                 (lattice (entry_bulk_supercell skewed_entry))
                 (lattice (entry_defect_supercell skewed_entry))"
      and ne': "\<not> lattice_eq example_lib (lattice (entry_defect_supercell skewed_entry))
                 (lattice (scale_lattice example_lib (entry_bulk_supercell skewed_entry)
                    (volume example_lib (lattice (entry_defect_supercell skewed_entry)))))"
      by (auto simp: example_lib_sel other_entry_sel skewed_defect_supercell_def
            example_bulk_supercell_def cubic_def)
    from lattice_mismatch_handling
           [OF other_entry_sel(4) example_site_potentials [OF other_entry_sel(3)]
               example_supercells, of None None "[]"] ne cl ne'
    show ?thesis
      by simp
  qed
  have 4: "get_kumagai_correction example_lib mismatched_entry None None None None None False None None []
     = Inl different_lattices_error"
  proof -
    have ne: "\<not> lattice_eq example_lib (lattice (entry_bulk_supercell mismatched_entry))
                (lattice (entry_defect_supercell mismatched_entry))"
      and far: "0 < length (lattice (entry_bulk_supercell mismatched_entry))
                \<and> 0 < length (lattice (entry_bulk_supercell mismatched_entry) ! 0)
                \<and> \<bar>lattice (entry_bulk_supercell mismatched_entry) ! 0 ! 0
                     - lattice (entry_defect_supercell mismatched_entry) ! 0 ! 0\<bar>
                   > 1/100 + \<bar>lattice (entry_defect_supercell mismatched_entry) ! 0 ! 0\<bar> / 100000"
      by (simp_all add: example_lib_sel other_entry_sel mismatched_bulk_supercell_def
            example_defect_supercell_def cubic_def)
    from lattice_mismatch_handling
           [OF other_entry_sel(6) example_site_potentials [OF other_entry_sel(5)]
               example_supercells, of None None "[]" False None None] ne far
    show ?thesis
      by blast
  qed
  from 1 2 3 4 show ?thesis by simp
qed

subsection \<open>The guard of plot_FNV\<close>


lemma example_plot:
  "plot_FNV example_lib example_plot_data title ax style_file = Inr (Figure 1)"
  by (simp add: plot_FNV_def example_plot_data_def example_lib_sel)

subsection \<open>Return shape of the entry points\<close>

lemma get_kumagai_correction_no_plot:
  "get_kumagai_correction lib entry dielectric radius_arg excluded_arg defect_outcar bulk_outcar
     False None style_file kwargs
   = (case kumagai_correction_result lib entry dielectric radius_arg excluded_arg
             defect_outcar bulk_outcar kwargs of
        Inl e \<Rightarrow> Inl e
      | Inr rc \<Rightarrow> Inr (Alone (fst rc)))"
  by (simp add: get_kumagai_correction_def split: sum.splits prod.splits)

lemma get_kumagai_correction_plot:
  assumes "plot \<or> filename \<noteq> None"
    and "get_kumagai_correction lib entry dielectric radius_arg excluded_arg defect_outcar
           bulk_outcar plot filename style_file kwargs = Inr ret"
  shows "\<exists>rc fig. kumagai_correction_result lib entry dielectric radius_arg excluded_arg
                     defect_outcar bulk_outcar kwargs = Inr rc
                 \<and> ret = WithFigure (fst rc) fig"
  using assms
  by (auto simp: get_kumagai_correction_def split: sum.splits prod.splits if_splits)

lemma get_freysoldt_correction_no_plot:
  "get_freysoldt_correction lib entry dielectric defect_locpot bulk_locpot False None axis
     style_file kwargs
   = (case freysoldt_correction_result lib entry dielectric defect_locpot bulk_locpot kwargs of
        Inl e \<Rightarrow> Inl e
      | Inr r \<Rightarrow> Inr (Alone r))"
  by (simp add: get_freysoldt_correction_def split: sum.splits)

lemma get_freysoldt_correction_plot:
  assumes "plot \<or> filename \<noteq> None"
    and "get_freysoldt_correction lib entry dielectric defect_locpot bulk_locpot plot filename
           axis style_file kwargs = Inr ret"
  shows "\<exists>r fig. freysoldt_correction_result lib entry dielectric defect_locpot bulk_locpot kwargs
                   = Inr r
               \<and> ret = WithFigure r fig"
  using assms
  by (auto simp: get_freysoldt_correction_def split: sum.splits if_splits)

text \<open>
  Claim C10. With \<^verbatim>\<open>plot=False\<close> and \<^verbatim>\<open>filename=None\<close> each entry point, when it
  returns, returns the \<^verbatim>\<open>CorrectionResult\<close> alone. With \<^verbatim>\<open>plot=True\<close> or a filename
  each entry point, when it returns, returns a pair of a \<^verbatim>\<open>CorrectionResult\<close> and a
  figure, and the \<^verbatim>\<open>CorrectionResult\<close> is the one that the same call returns alone
  without plotting.
\<close>

theorem return_shape:
  "(\<forall>ret. get_kumagai_correction lib entry dielectric radius_arg excluded_arg defect_outcar
             bulk_outcar False None style_file kwargs = Inr ret
          \<longrightarrow> (\<exists>r. ret = Alone r))
   \<and> (\<forall>ret. (plot \<or> filename \<noteq> None)
          \<and> get_kumagai_correction lib entry dielectric radius_arg excluded_arg defect_outcar
               bulk_outcar plot filename style_file kwargs = Inr ret
          \<longrightarrow> (\<exists>r fig. ret = WithFigure r fig
                \<and> get_kumagai_correction lib entry dielectric radius_arg excluded_arg
                      defect_outcar bulk_outcar False None style_file kwargs = Inr (Alone r)))
   \<and> (\<forall>ret. get_freysoldt_correction lib entry dielectric defect_locpot bulk_locpot False None
             axis style_file kwargs = Inr ret
          \<longrightarrow> (\<exists>r. ret = Alone r))
   \<and> (\<forall>ret. (plot \<or> filename \<noteq> None)
          \<and> get_freysoldt_correction lib entry dielectric defect_locpot bulk_locpot plot filename
               axis style_file kwargs = Inr ret
          \<longrightarrow> (\<exists>r fig. ret = WithFigure r fig
                \<and> get_freysoldt_correction lib entry dielectric defect_locpot bulk_locpot
                      False None axis style_file kwargs = Inr (Alone r)))"
proof (intro conjI allI impI)
  fix ret
  assume "get_kumagai_correction lib entry dielectric radius_arg excluded_arg defect_outcar
             bulk_outcar False None style_file kwargs = Inr ret"
  then show "\<exists>r. ret = Alone r"
    by (auto simp: get_kumagai_correction_no_plot split: sum.splits)
next
  fix ret
  assume a: "(plot \<or> filename \<noteq> None)
          \<and> get_kumagai_correction lib entry dielectric radius_arg excluded_arg defect_outcar
               bulk_outcar plot filename style_file kwargs = Inr ret"
  then obtain rc fig where
    "kumagai_correction_result lib entry dielectric radius_arg excluded_arg
        defect_outcar bulk_outcar kwargs = Inr rc" and "ret = WithFigure (fst rc) fig"
    using get_kumagai_correction_plot by blast
  then show "\<exists>r fig. ret = WithFigure r fig
                \<and> get_kumagai_correction lib entry dielectric radius_arg excluded_arg
                      defect_outcar bulk_outcar False None style_file kwargs = Inr (Alone r)"
    by (simp add: get_kumagai_correction_no_plot)
next
  fix ret
  assume "get_freysoldt_correction lib entry dielectric defect_locpot bulk_locpot False None
             axis style_file kwargs = Inr ret"
  then show "\<exists>r. ret = Alone r"
    by (auto simp: get_freysoldt_correction_no_plot split: sum.splits)
next
  fix ret
  assume a: "(plot \<or> filename \<noteq> None)
          \<and> get_freysoldt_correction lib entry dielectric defect_locpot bulk_locpot plot filename
               axis style_file kwargs = Inr ret"
  then obtain r fig where
    "freysoldt_correction_result lib entry dielectric defect_locpot bulk_locpot kwargs = Inr r"
    and "ret = WithFigure r fig"
    using get_freysoldt_correction_plot by blast
  then show "\<exists>r fig. ret = WithFigure r fig
                \<and> get_freysoldt_correction lib entry dielectric defect_locpot bulk_locpot
                      False None axis style_file kwargs = Inr (Alone r)"
    by (simp add: get_freysoldt_correction_no_plot)
qed


lemma example_kumagai_plot:
  "get_kumagai_correction example_lib example_entry None None None None None True None None []
     = Inr (WithFigure example_kumagai_result (Figure 7))"
  by (simp add: get_kumagai_correction_def example_kumagai_run example_lib_sel
        save_if_filename_def)

lemma example_freysoldt_run:
  "freysoldt_correction_result example_lib example_entry None None None []
     = Inr example_fnv_result"
  by (simp add: freysoldt_correction_result_def example_inputs resolve_locpot_def
        get_and_check_metadata_def check_if_None_and_raise_error_if_so_def
        check_if_str_and_get_pmg_obj_def example_entry_sel example_metadata_def
        example_lib_sel)

lemma example_plot_directions:
  "plot_directions example_lib example_fnv_result [Figure 1, Figure 2, Figure 3] None [0, 1, 2]
     = Inr ()"
  by (simp add: example_fnv_result_def example_fnv_metadata_def example_plot py_index_def
        axis_label_dict_def)

lemma example_freysoldt_plot:
  "get_freysoldt_correction example_lib example_entry None None None True None None None []
     = Inr (WithFigure example_fnv_result (Figure 0))"
  using example_plot_directions
  by (simp add: get_freysoldt_correction_def example_freysoldt_run save_if_filename_def
        example_lib_sel del: plot_directions.simps)

theorem return_shape_witness:
  "get_kumagai_correction example_lib example_entry None None None None None True None None []
     = Inr (WithFigure example_kumagai_result (Figure 7))
   \<and> get_kumagai_correction example_lib example_entry None None None None None False None None []
     = Inr (Alone example_kumagai_result)
   \<and> get_freysoldt_correction example_lib example_entry None None None True None None None []
     = Inr (WithFigure example_fnv_result (Figure 0))
   \<and> get_freysoldt_correction example_lib example_entry None None None False None None None []
     = Inr (Alone example_fnv_result)"
proof -
  note shape = return_shape [of example_lib example_entry None None None None None None "[]"
                               True None None None None]
  from shape example_kumagai_plot
  have k: "get_kumagai_correction example_lib example_entry None None None None None False None
             None [] = Inr (Alone example_kumagai_result)"
    by blast
  from shape example_freysoldt_plot
  have f: "get_freysoldt_correction example_lib example_entry None None None False None None
             None [] = Inr (Alone example_fnv_result)"
    by blast
  from k f example_kumagai_plot example_freysoldt_plot show ?thesis
    by blast
qed

subsection \<open>Missing inputs\<close>

text \<open>
  Claim C8. Both entry points raise a ValueError, and return nothing, when a required
  input is missing: the dielectric, when it is neither passed nor cached; the defect or
  bulk site potentials (eFNV) or LOCPOT data (FNV), when the earlier inputs were
  obtained and this one is neither passed nor cached; and, for eFNV, a supplied OUTCAR
  whose core potentials are None, with a message that names the side (defect or bulk).
  The message of a missing input starts with the name of the quantity.
\<close>

theorem missing_inputs_fail_fast:
  "(md_dielectric (metadata_of entry) = None \<longrightarrow>
      get_kumagai_correction lib entry None radius_arg excluded_arg defect_outcar bulk_outcar
        plot filename style_file kwargs
      = Inl (missing_input_error ''Dielectric constant'' ''dielectric'')
    \<and> get_freysoldt_correction lib entry None defect_locpot bulk_locpot
        plot filename axis style_file kwargs
      = Inl (missing_input_error ''Dielectric constant'' ''dielectric''))
   \<and> (resolve_dielectric entry dielectric = Inr tensor
        \<and> md_defect_site_potentials (metadata_of entry) = None \<longrightarrow>
      get_kumagai_correction lib entry dielectric radius_arg excluded_arg None bulk_outcar
        plot filename style_file kwargs
      = Inl (missing_input_error ''Defect OUTCAR (for atomic site potentials)''
               ''defect_site_potentials''))
   \<and> (resolve_dielectric entry dielectric = Inr tensor
        \<and> resolve_site_potentials lib defect_outcar ''defect''
              (md_defect_site_potentials (metadata_of entry))
              ''defect_site_potentials'' ''Defect OUTCAR (for atomic site potentials)'' = Inr dp
        \<and> md_bulk_site_potentials (metadata_of entry) = None \<longrightarrow>
      get_kumagai_correction lib entry dielectric radius_arg excluded_arg defect_outcar None
        plot filename style_file kwargs
      = Inl (missing_input_error ''Bulk OUTCAR (for atomic site potentials)''
               ''bulk_site_potentials''))
   \<and> (resolve_dielectric entry dielectric = Inr tensor
        \<and> check_if_str_and_get_pmg_obj lib x ''outcar'' = Inr (OutcarObj oc)
        \<and> electrostatic_potential oc = None \<longrightarrow>
      get_kumagai_correction lib entry dielectric radius_arg excluded_arg (Some x) bulk_outcar
        plot filename style_file kwargs
      = Inl (ValueError (''Unable to parse atomic core potentials from defect `OUTCAR` object''
               @ ''. This can happen if `ICORELEVEL` was not set to 0 (= default) in the `INCAR`, or if ''
               @ ''the calculation was finished prematurely with a `STOPCAR`. The Kumagai charge ''
               @ ''correction cannot be computed without this data!'')))
   \<and> (resolve_dielectric entry dielectric = Inr tensor
        \<and> resolve_site_potentials lib defect_outcar ''defect''
              (md_defect_site_potentials (metadata_of entry))
              ''defect_site_potentials'' ''Defect OUTCAR (for atomic site potentials)'' = Inr dp
        \<and> check_if_str_and_get_pmg_obj lib y ''outcar'' = Inr (OutcarObj oc)
        \<and> electrostatic_potential oc = None \<longrightarrow>
      get_kumagai_correction lib entry dielectric radius_arg excluded_arg defect_outcar (Some y)
        plot filename style_file kwargs
      = Inl (ValueError (''Unable to parse atomic core potentials from bulk `OUTCAR` object''
               @ ''. This can happen if `ICORELEVEL` was not set to 0 (= default) in the `INCAR`, or if ''
               @ ''the calculation was finished prematurely with a `STOPCAR`. The Kumagai charge ''
               @ ''correction cannot be computed without this data!'')))
   \<and> (resolve_dielectric entry dielectric = Inr tensor
        \<and> \<not> input_truthy defect_locpot
        \<and> md_defect_locpot_dict (metadata_of entry) = None \<longrightarrow>
      get_freysoldt_correction lib entry dielectric defect_locpot bulk_locpot
        plot filename axis style_file kwargs
      = Inl (missing_input_error ''Defect LOCPOT'' ''defect_locpot_dict''))
   \<and> (resolve_dielectric entry dielectric = Inr tensor
        \<and> resolve_locpot defect_locpot (md_defect_locpot_dict (metadata_of entry))
              ''defect_locpot_dict'' ''Defect LOCPOT'' = Inr dl
        \<and> \<not> input_truthy bulk_locpot
        \<and> md_bulk_locpot_dict (metadata_of entry) = None \<longrightarrow>
      get_freysoldt_correction lib entry dielectric defect_locpot bulk_locpot
        plot filename axis style_file kwargs
      = Inl (missing_input_error ''Bulk LOCPOT'' ''bulk_locpot_dict''))
   \<and> missing_input_error var_name display_name
       = ValueError (var_name
           @ '' must be provided as an argument or be present in the `defect_entry` ''
           @ ''`calculation_metadata` (as `'' @ display_name
           @ ''`), neither of which is the case here!'')"
  by (simp add: get_kumagai_correction_def kumagai_correction_result_def
        get_freysoldt_correction_def freysoldt_correction_result_def
        resolve_dielectric_def resolve_site_potentials_def resolve_locpot_def
        get_and_check_metadata_def check_if_None_and_raise_error_if_so_def
        raise_incomplete_outcar_error_def missing_input_error_def)


lemma bare_entry_sel:
  "md_dielectric (metadata_of bare_entry) = None"
  "md_defect_site_potentials (metadata_of bare_entry) = None"
  "md_bulk_site_potentials (metadata_of bare_entry) = None"
  "md_defect_locpot_dict (metadata_of bare_entry) = None"
  "md_bulk_locpot_dict (metadata_of bare_entry) = None"
  "resolve_dielectric bare_entry (Some (DScalar 9)) = Inr (cubic 9)"
  by (simp_all add: bare_entry_def empty_metadata_def resolve_dielectric_def
        convert_dielectric_to_tensor_def cubic_def)

lemma example_outcars:
  "check_if_str_and_get_pmg_obj lib incomplete_outcar ''outcar''
     = Inr (OutcarObj \<lparr>electrostatic_potential = None\<rparr>)"
  "resolve_site_potentials lib (Some complete_outcar) ''defect'' cached key display
     = Inr [3, 2, 2]"
  "resolve_locpot (Some (LocpotObj (Locpot 0))) cached' key display = Inr (LocpotObj (Locpot 0))"
  by (simp_all add: check_if_str_and_get_pmg_obj_def incomplete_outcar_def complete_outcar_def
        resolve_site_potentials_def resolve_locpot_def)

theorem missing_inputs_fail_fast_witness:
  "get_kumagai_correction example_lib bare_entry None None None None None False None None []
     = Inl (ValueError (''Dielectric constant must be provided as an argument or be present in ''
              @ ''the `defect_entry` `calculation_metadata` (as `dielectric`), neither of which is ''
              @ ''the case here!''))
   \<and> get_freysoldt_correction example_lib bare_entry None None None False None None None []
     = Inl (ValueError (''Dielectric constant must be provided as an argument or be present in ''
              @ ''the `defect_entry` `calculation_metadata` (as `dielectric`), neither of which is ''
              @ ''the case here!''))
   \<and> get_kumagai_correction example_lib bare_entry (Some (DScalar 9)) None None None None
       False None None []
     = Inl (missing_input_error ''Defect OUTCAR (for atomic site potentials)''
              ''defect_site_potentials'')
   \<and> get_kumagai_correction example_lib bare_entry (Some (DScalar 9)) None None
       (Some complete_outcar) None False None None []
     = Inl (missing_input_error ''Bulk OUTCAR (for atomic site potentials)''
              ''bulk_site_potentials'')
   \<and> get_kumagai_correction example_lib bare_entry (Some (DScalar 9)) None None
       (Some incomplete_outcar) None False None None []
     = Inl (raise_incomplete_outcar_error incomplete_outcar ''defect'')
   \<and> get_kumagai_correction example_lib bare_entry (Some (DScalar 9)) None None
       (Some complete_outcar) (Some incomplete_outcar) False None None []
     = Inl (raise_incomplete_outcar_error incomplete_outcar ''bulk'')
   \<and> get_freysoldt_correction example_lib bare_entry (Some (DScalar 9)) None None
       False None None None []
     = Inl (missing_input_error ''Defect LOCPOT'' ''defect_locpot_dict'')
   \<and> get_freysoldt_correction example_lib bare_entry (Some (DScalar 9))
       (Some (LocpotObj (Locpot 0))) None False None None None []
     = Inl (missing_input_error ''Bulk LOCPOT'' ''bulk_locpot_dict'')"
proof -
  note T = missing_inputs_fail_fast
             [where entry = bare_entry and lib = example_lib and tensor = "cubic 9"
                and radius_arg = None and excluded_arg = None and plot = False
                and filename = None and style_file = None and kwargs = "[]" and axis = None
                and oc = "\<lparr>electrostatic_potential = None\<rparr>"
                and x = incomplete_outcar and y = incomplete_outcar
                and dp = "[3, 2, 2]" and dl = "LocpotObj (Locpot 0)"]
  have 1: "get_kumagai_correction example_lib bare_entry None None None None None False None None []
             = Inl (missing_input_error ''Dielectric constant'' ''dielectric'')"
    and 2: "get_freysoldt_correction example_lib bare_entry None None None False None None None []
             = Inl (missing_input_error ''Dielectric constant'' ''dielectric'')"
    using T [where dielectric = None and defect_outcar = None and bulk_outcar = None
               and defect_locpot = None and bulk_locpot = None] bare_entry_sel(1)
    by blast+
  have 3: "get_kumagai_correction example_lib bare_entry (Some (DScalar 9)) None None None None
       False None None []
     = Inl (missing_input_error ''Defect OUTCAR (for atomic site potentials)''
              ''defect_site_potentials'')"
    using T [where dielectric = "Some (DScalar 9)" and bulk_outcar = None] bare_entry_sel
    by blast
  have 4: "get_kumagai_correction example_lib bare_entry (Some (DScalar 9)) None None
       (Some complete_outcar) None False None None []
     = Inl (missing_input_error ''Bulk OUTCAR (for atomic site potentials)''
              ''bulk_site_potentials'')"
    using T [where dielectric = "Some (DScalar 9)" and defect_outcar = "Some complete_outcar"]
      bare_entry_sel example_outcars
    by blast
  have 5: "get_kumagai_correction example_lib bare_entry (Some (DScalar 9)) None None
       (Some incomplete_outcar) None False None None []
     = Inl (raise_incomplete_outcar_error incomplete_outcar ''defect'')"
    using T [where dielectric = "Some (DScalar 9)" and bulk_outcar = None]
      bare_entry_sel(6) example_outcars(1) [of example_lib]
    by (simp add: raise_incomplete_outcar_error_def incomplete_outcar_def)
  have 6: "get_kumagai_correction example_lib bare_entry (Some (DScalar 9)) None None
       (Some complete_outcar) (Some incomplete_outcar) False None None []
     = Inl (raise_incomplete_outcar_error incomplete_outcar ''bulk'')"
    using T [where dielectric = "Some (DScalar 9)" and defect_outcar = "Some complete_outcar"]
      bare_entry_sel(6) example_outcars(1) [of example_lib] example_outcars(2)
    by (simp add: raise_incomplete_outcar_error_def incomplete_outcar_def)
  have 7: "get_freysoldt_correction example_lib bare_entry (Some (DScalar 9)) None None
       False None None None []
     = Inl (missing_input_error ''Defect LOCPOT'' ''defect_locpot_dict'')"
    using T [where dielectric = "Some (DScalar 9)" and defect_locpot = None and bulk_locpot = None]
      bare_entry_sel
    by simp
  have 8: "get_freysoldt_correction example_lib bare_entry (Some (DScalar 9))
       (Some (LocpotObj (Locpot 0))) None False None None None []
     = Inl (missing_input_error ''Bulk LOCPOT'' ''bulk_locpot_dict'')"
    using T [where dielectric = "Some (DScalar 9)" and defect_locpot = "Some (LocpotObj (Locpot 0))"
               and bulk_locpot = None]
      bare_entry_sel example_outcars(3)
    by simp
  have m: "missing_input_error ''Dielectric constant'' ''dielectric''
     = ValueError (''Dielectric constant must be provided as an argument or be present in ''
              @ ''the `defect_entry` `calculation_metadata` (as `dielectric`), neither of which is ''
              @ ''the case here!'')"
    by (simp add: missing_input_error_def)
  from 1 2 3 4 5 6 7 8 show ?thesis
    unfolding m by blast
qed

subsection \<open>Dielectric normalisation\<close>

lemma resolve_dielectric_forms:
  "resolve_dielectric entry (Some (DScalar d)) = Inr [[d, 0, 0], [0, d, 0], [0, 0, d]]"
  "resolve_dielectric entry (Some (DVector [d, d, d])) = Inr [[d, 0, 0], [0, d, 0], [0, 0, d]]"
  "resolve_dielectric entry (Some (DMatrix [[d, 0, 0], [0, d, 0], [0, 0, d]]))
     = Inr [[d, 0, 0], [0, d, 0], [0, 0, d]]"
  by (simp_all add: resolve_dielectric_def convert_dielectric_to_tensor_def)

lemma resolve_dielectric_bad_shape:
  "length v \<noteq> 3 \<Longrightarrow>
   resolve_dielectric entry (Some (DVector v)) = Inl (ValueError ''dielectric: unsupported shape'')"
  "\<not> (length m = 3 \<and> list_all (\<lambda>row. length row = 3) m) \<Longrightarrow>
   resolve_dielectric entry (Some (DMatrix m)) = Inl (ValueError ''dielectric: unsupported shape'')"
  by (auto simp: resolve_dielectric_def convert_dielectric_to_tensor_def split: list.splits)

lemma entry_points_resolve_first:
  "resolve_dielectric entry d1 = resolve_dielectric entry d2 \<Longrightarrow>
   get_kumagai_correction lib entry d1 radius_arg excluded_arg defect_outcar bulk_outcar
     plot filename style_file kwargs
   = get_kumagai_correction lib entry d2 radius_arg excluded_arg defect_outcar bulk_outcar
     plot filename style_file kwargs"
  "resolve_dielectric entry d1 = resolve_dielectric entry d2 \<Longrightarrow>
   get_freysoldt_correction lib entry d1 defect_locpot bulk_locpot plot filename axis
     style_file kwargs
   = get_freysoldt_correction lib entry d2 defect_locpot bulk_locpot plot filename axis
     style_file kwargs"
  by (simp_all add: get_kumagai_correction_def kumagai_correction_result_def
        get_freysoldt_correction_def freysoldt_correction_result_def)

lemma entry_points_resolve_error:
  "resolve_dielectric entry d = Inl e \<Longrightarrow>
   get_kumagai_correction lib entry d radius_arg excluded_arg defect_outcar bulk_outcar
     plot filename style_file kwargs = Inl e"
  "resolve_dielectric entry d = Inl e \<Longrightarrow>
   get_freysoldt_correction lib entry d defect_locpot bulk_locpot plot filename axis
     style_file kwargs = Inl e"
  by (simp_all add: get_kumagai_correction_def kumagai_correction_result_def
        get_freysoldt_correction_def freysoldt_correction_result_def)

text \<open>
  Claim C5. For every scalar \<open>d\<close> (positive or not), passing the dielectric as \<open>d\<close>, as
  the vector \<open>[d, d, d]\<close> or as the matrix \<open>diag(d, d, d)\<close> gives the same outcome of
  \<^verbatim>\<open>get_kumagai_correction\<close> and of \<^verbatim>\<open>get_freysoldt_correction\<close> (the same result, hence
  the same correction energy, or the same error), all other arguments being equal; a
  vector of another length and a matrix of another shape make both entry points fail
  with the input-validation error of the normaliser.
\<close>

theorem dielectric_forms_agree:
  "get_kumagai_correction lib entry (Some (DVector [d, d, d])) radius_arg excluded_arg
       defect_outcar bulk_outcar plot filename style_file kwargs
     = get_kumagai_correction lib entry (Some (DScalar d)) radius_arg excluded_arg
         defect_outcar bulk_outcar plot filename style_file kwargs
   \<and> get_kumagai_correction lib entry (Some (DMatrix [[d, 0, 0], [0, d, 0], [0, 0, d]]))
       radius_arg excluded_arg defect_outcar bulk_outcar plot filename style_file kwargs
     = get_kumagai_correction lib entry (Some (DScalar d)) radius_arg excluded_arg
         defect_outcar bulk_outcar plot filename style_file kwargs
   \<and> get_freysoldt_correction lib entry (Some (DVector [d, d, d])) defect_locpot bulk_locpot
       plot filename axis style_file kwargs
     = get_freysoldt_correction lib entry (Some (DScalar d)) defect_locpot bulk_locpot
         plot filename axis style_file kwargs
   \<and> get_freysoldt_correction lib entry (Some (DMatrix [[d, 0, 0], [0, d, 0], [0, 0, d]]))
       defect_locpot bulk_locpot plot filename axis style_file kwargs
     = get_freysoldt_correction lib entry (Some (DScalar d)) defect_locpot bulk_locpot
         plot filename axis style_file kwargs
   \<and> (length v \<noteq> 3 \<longrightarrow>
        get_kumagai_correction lib entry (Some (DVector v)) radius_arg excluded_arg
          defect_outcar bulk_outcar plot filename style_file kwargs
        = Inl (ValueError ''dielectric: unsupported shape'')
      \<and> get_freysoldt_correction lib entry (Some (DVector v)) defect_locpot bulk_locpot
          plot filename axis style_file kwargs
        = Inl (ValueError ''dielectric: unsupported shape''))
   \<and> (\<not> (length m = 3 \<and> list_all (\<lambda>row. length row = 3) m) \<longrightarrow>
        get_kumagai_correction lib entry (Some (DMatrix m)) radius_arg excluded_arg
          defect_outcar bulk_outcar plot filename style_file kwargs
        = Inl (ValueError ''dielectric: unsupported shape'')
      \<and> get_freysoldt_correction lib entry (Some (DMatrix m)) defect_locpot bulk_locpot
          plot filename axis style_file kwargs
        = Inl (ValueError ''dielectric: unsupported shape''))"
  using resolve_dielectric_bad_shape(1) [of v entry] resolve_dielectric_bad_shape(2) [of m entry]
  by (auto intro!: entry_points_resolve_first entry_points_resolve_error
        simp: resolve_dielectric_forms)

theorem dielectric_forms_agree_witness:
  "get_kumagai_correction example_lib example_entry (Some (DVector [9, 9, 9])) None None None None
       False None None []
     = Inr (Alone example_kumagai_result)
   \<and> get_kumagai_correction example_lib example_entry (Some (DMatrix (cubic 9))) None None None None
       False None None []
     = Inr (Alone example_kumagai_result)
   \<and> get_kumagai_correction example_lib example_entry (Some (DScalar 9)) None None None None
       False None None []
     = Inr (Alone example_kumagai_result)
   \<and> get_kumagai_correction example_lib example_entry (Some (DVector [9, 9])) None None None None
       False None None []
     = Inl (ValueError ''dielectric: unsupported shape'')
   \<and> get_freysoldt_correction example_lib example_entry (Some (DMatrix [[9, 0], [0, 9]])) None None
       False None None None []
     = Inl (ValueError ''dielectric: unsupported shape'')"
proof -
  note T = dielectric_forms_agree
             [where lib = example_lib and entry = example_entry and d = 9
                and radius_arg = None and excluded_arg = None
                and defect_outcar = None and bulk_outcar = None
                and defect_locpot = None and bulk_locpot = None and axis = None
                and plot = False and filename = None and style_file = None and kwargs = "[]"
                and v = "[9, 9]" and m = "[[9, 0], [0, 9]]"]
  have "resolve_dielectric example_entry (Some (DScalar 9)) = resolve_dielectric example_entry None"
    by (simp add: resolve_dielectric_def get_and_check_metadata_def
          check_if_None_and_raise_error_if_so_def example_entry_sel example_metadata_def)
  from entry_points_resolve_first(1) [OF this, of example_lib None None None None False None None "[]"]
  have s: "get_kumagai_correction example_lib example_entry (Some (DScalar 9)) None None None None
             False None None [] = Inr (Alone example_kumagai_result)"
    by (simp add: get_kumagai_correction_no_plot example_kumagai_run)
  from T s show ?thesis
    by (simp add: cubic_def)
qed

subsection \<open>The returned energy and the collaborators\<close>


lemma freysoldt_result_from_collaborator:
  assumes "freysoldt_correction_result lib entry dielectric defect_locpot bulk_locpot kwargs = Inr r"
  shows "\<exists>tensor dl bl latt.
           pmg_freysoldt_correction lib (charge_state entry) tensor dl bl latt
             (get_defect_supercell_bulk_site_coords lib entry) kwargs = Inr r"
  using assms
  by (auto simp: freysoldt_correction_result_def split: sum.splits)

lemma collect_sites_pc_None:
  "collect_sites lib cr pcr dc excl m = Inr srs \<Longrightarrow> sr \<in> set srs \<Longrightarrow>
   pc_potential (fst sr) = None"
proof (induction m arbitrary: srs)
  case Nil
  then show ?case by simp
next
  case (Cons dp m)
  show ?case
  proof (cases "fst dp \<in> set excl")
    case True
    with Cons show ?thesis by simp
  next
    case False
    with Cons.prems(1) obtain s0 rest where
      mk: "make_potential_site lib cr pcr dc dp = Inr s0"
      and r: "collect_sites lib cr pcr dc excl m = Inr rest"
      and srs: "srs = s0 # rest"
      by (auto split: sum.splits)
    from mk have "pc_potential (fst s0) = None"
      by (cases s0) (simp add: make_potential_site_pc_None)
    with Cons.IH [OF r] Cons.prems(2) srs show ?thesis
      by auto
  qed
qed

text \<open>For a neutral defect the object carries a zero point-charge term, and model
  potential 0 on the sites beyond the radius, None on the others.\<close>

lemma neutral_efnv_object:
  assumes "doped_make_efnv_correction lib 0 cr pcr diel radius_arg coords_arg acc uc excluded_arg = Inr r"
  shows "point_charge_correction r = 0"
    and "\<forall>s \<in> set (efnv_sites r).
           pc_potential s = (if distance s > defect_region_radius r then Some 0 else None)"
proof -
  from doped_make_efnv_correction_Inr [OF assms]
  obtain srs where
    c: "collect_sites lib cr pcr (center_coords lib cr pcr coords_arg) (excluded_list excluded_arg)
          (atom_mapping lib (cr_structure cr) (cr_structure pcr)) = Inr srs"
    and p: "point_charge_correction r = point_charge_term lib (lattice (cr_structure cr)) diel acc 0 * uc"
    and ss: "efnv_sites r = map (assign_pc_potential lib (lattice (cr_structure cr)) diel acc 0 uc
                                   (defect_region_radius r)) srs"
    by auto
  from p show "point_charge_correction r = 0"
    by (simp add: point_charge_term_def)
  show "\<forall>s \<in> set (efnv_sites r).
           pc_potential s = (if distance s > defect_region_radius r then Some 0 else None)"
  proof
    fix s assume "s \<in> set (efnv_sites r)"
    then obtain sr where sr: "sr \<in> set srs"
      and s: "s = assign_pc_potential lib (lattice (cr_structure cr)) diel acc 0 uc
                    (defect_region_radius r) sr"
      unfolding ss by auto
    from collect_sites_pc_None [OF c sr] have "pc_potential (fst sr) = None" .
    then show "pc_potential s = (if distance s > defect_region_radius r then Some 0 else None)"
      unfolding s by (simp add: assign_pc_potential_def)
  qed
qed

lemma returned_energy_depends_on_collaborator:
  "kumagai_correction_result example_lib example_entry None None None None None []
     = Inr (\<lparr>correction_energy = point_charge_correction example_efnv,
             metadata = [(''pydefect_ExtendedFnvCorrection'', example_efnv)]\<rparr>, example_efnv)"
  "kumagai_correction_result aligned_lib example_entry None None None None None []
     = Inr (\<lparr>correction_energy = point_charge_correction example_efnv
                + 2 * (1 - 3/4 * (- 2) * 180.95128169876497),
             metadata = [(''pydefect_ExtendedFnvCorrection'', example_efnv)]\<rparr>, example_efnv)"
proof -
  show "kumagai_correction_result example_lib example_entry None None None None None []
     = Inr (\<lparr>correction_energy = point_charge_correction example_efnv,
             metadata = [(''pydefect_ExtendedFnvCorrection'', example_efnv)]\<rparr>, example_efnv)"
    using example_kumagai_run by (simp add: example_kumagai_result_def)
  have sel: "lattice_eq aligned_lib = lattice_eq example_lib"
    "remove_oxidation_states aligned_lib = remove_oxidation_states example_lib"
    "get_defect_supercell aligned_lib = get_defect_supercell example_lib"
    "get_bulk_supercell aligned_lib = get_bulk_supercell example_lib"
    "get_defect_supercell_bulk_site_coords aligned_lib = get_defect_supercell_bulk_site_coords example_lib"
    "ewald_accuracy aligned_lib = ewald_accuracy example_lib"
    by (simp_all add: aligned_lib_def)
  have run: "doped_make_efnv_correction aligned_lib (- 2) example_defect_results example_bulk_results
     (cubic 9) None (Some [0, 0, 0]) 15 unit_conversion_default None = Inr example_efnv"
    by (simp add: efnv_defs example_defs example_efnv_def aligned_lib_def)
  have e: "efnv_correction_energy aligned_lib example_efnv
             = point_charge_correction example_efnv + 2 * (1 - 3/4 * (- 2) * 180.95128169876497)"
    by (simp add: aligned_lib_def example_efnv_def alignment_constant_def sampled_differences_def
          mean_def)
  show "kumagai_correction_result aligned_lib example_entry None None None None None []
     = Inr (\<lparr>correction_energy = point_charge_correction example_efnv
                + 2 * (1 - 3/4 * (- 2) * 180.95128169876497),
             metadata = [(''pydefect_ExtendedFnvCorrection'', example_efnv)]\<rparr>, example_efnv)"
    using run
    by (simp add: kumagai_correction_result_def kumagai_result_from_def example_inputs
          sel example_lib_sel example_entry_sel match_bulk_lattice_def
          call_doped_make_efnv_correction_def example_defect_results_def
          example_bulk_results_def example_defect_supercell_def example_bulk_supercell_def e)
qed

subsection \<open>Model potentials of the sampled sites\<close>

lemma example_run_offcentre:
  "doped_make_efnv_correction example_lib (- 2) example_defect_results example_bulk_results
     (cubic 9) None (Some [1/10, 0, 0]) 15 unit_conversion_default None = Inr example_efnv_offcentre"
  by (simp add: efnv_defs example_defs example_efnv_offcentre_def)

lemma make_potential_site_Inr:
  assumes "make_potential_site lib cr pcr dc dp = Inr sr"
  shows "\<exists>ps vd vp.
           py_index (sites (cr_structure cr)) (fst dp) = Inr ps
         \<and> py_index (potentials cr) (fst dp) = Inr vd
         \<and> py_index (potentials pcr) (snd dp) = Inr vp
         \<and> sr = (\<lparr>ps_specie = specie ps,
                    distance = get_distance lib (lattice (cr_structure cr)) dc (frac_coords ps),
                    potential = vd - vp,
                    pc_potential = None\<rparr>,
                   map2 (\<lambda>x y. x - y) (frac_coords ps) dc)"
  using assms
  by (auto simp: make_potential_site_def split: sum.splits)

text \<open>
  Claim C7. Whenever \<^verbatim>\<open>doped_make_efnv_correction\<close> returns for a nonzero charge q: the
  defect region radius of the result is the supplied one or, when none is supplied,
  \<^verbatim>\<open>calc_max_sphere_radius\<close> of the lattice; the defect centre is the supplied one or,
  when none is supplied, pydefect's defect centre; and the sites of the result are, in
  order, those of the mapped atoms that are not excluded, each with its species, its
  distance from the defect centre, the potential difference defect minus bulk and its
  model potential. The model potential is the Ewald atomic-site potential at the
  atom's fractional coordinate minus the defect centre, times q times the unit
  conversion, when the distance exceeds the radius, and None otherwise.
\<close>

theorem model_potential_outside_radius:
  assumes "q \<noteq> 0"
    and "doped_make_efnv_correction lib q cr pcr diel radius_arg coords_arg acc uc excluded_arg = Inr r"
  shows "defect_region_radius r =
           (case radius_arg of
              None \<Rightarrow> calc_max_sphere_radius lib (lattice (cr_structure cr))
            | Some x \<Rightarrow> x)
       \<and> defect_coords r =
           (case coords_arg of
              None \<Rightarrow> defect_center_coord lib (cr_structure cr) (cr_structure pcr)
            | Some c \<Rightarrow> c)
       \<and> list_all2
           (\<lambda>dp site. \<exists>ps vd vp.
               py_index (sites (cr_structure cr)) (fst dp) = Inr ps
             \<and> py_index (potentials cr) (fst dp) = Inr vd
             \<and> py_index (potentials pcr) (snd dp) = Inr vp
             \<and> site =
                 \<lparr>ps_specie = specie ps,
                  distance = get_distance lib (lattice (cr_structure cr)) (defect_coords r)
                               (frac_coords ps),
                  potential = vd - vp,
                  pc_potential =
                    (if get_distance lib (lattice (cr_structure cr)) (defect_coords r)
                          (frac_coords ps) > defect_region_radius r
                     then Some (ewald_atomic_site_potential lib (lattice (cr_structure cr)) diel acc
                                  (map2 (\<lambda>x y. x - y) (frac_coords ps) (defect_coords r))
                                * real_of_int q * uc)
                     else None)\<rparr>)
           (filter (\<lambda>dp. fst dp \<notin> set (case excluded_arg of None \<Rightarrow> [] | Some ixs \<Rightarrow> ixs))
              (atom_mapping lib (cr_structure cr) (cr_structure pcr)))
           (efnv_sites r)"
proof -
  let ?latt = "lattice (cr_structure cr)"
  from doped_make_efnv_correction_Inr [OF assms(2)]
  obtain srs where
    c: "collect_sites lib cr pcr (center_coords lib cr pcr coords_arg) (excluded_list excluded_arg)
          (atom_mapping lib (cr_structure cr) (cr_structure pcr)) = Inr srs"
    and rad: "defect_region_radius r = region_radius lib ?latt radius_arg"
    and ss: "efnv_sites r = map (assign_pc_potential lib ?latt diel acc q uc
                                   (defect_region_radius r)) srs"
    and dc: "defect_coords r = center_coords lib cr pcr coords_arg"
    by auto
  have 1: "defect_region_radius r =
           (case radius_arg of None \<Rightarrow> calc_max_sphere_radius lib ?latt | Some x \<Rightarrow> x)"
    using rad by (simp add: region_radius_def)
  have 2: "defect_coords r =
           (case coords_arg of
              None \<Rightarrow> defect_center_coord lib (cr_structure cr) (cr_structure pcr)
            | Some c \<Rightarrow> c)"
    using dc by (simp add: center_coords_def)
  from c have l: "list_all2 (\<lambda>dp sr. make_potential_site lib cr pcr (defect_coords r) dp = Inr sr)
     (filter (\<lambda>dp. fst dp \<notin> set (case excluded_arg of None \<Rightarrow> [] | Some ixs \<Rightarrow> ixs))
        (atom_mapping lib (cr_structure cr) (cr_structure pcr))) srs"
    by (simp add: collect_sites_Inr_iff dc excluded_list_def)
  have 3: "list_all2
           (\<lambda>dp site. \<exists>ps vd vp.
               py_index (sites (cr_structure cr)) (fst dp) = Inr ps
             \<and> py_index (potentials cr) (fst dp) = Inr vd
             \<and> py_index (potentials pcr) (snd dp) = Inr vp
             \<and> site =
                 \<lparr>ps_specie = specie ps,
                  distance = get_distance lib ?latt (defect_coords r) (frac_coords ps),
                  potential = vd - vp,
                  pc_potential =
                    (if get_distance lib ?latt (defect_coords r) (frac_coords ps)
                          > defect_region_radius r
                     then Some (ewald_atomic_site_potential lib ?latt diel acc
                                  (map2 (\<lambda>x y. x - y) (frac_coords ps) (defect_coords r))
                                * real_of_int q * uc)
                     else None)\<rparr>)
           (filter (\<lambda>dp. fst dp \<notin> set (case excluded_arg of None \<Rightarrow> [] | Some ixs \<Rightarrow> ixs))
              (atom_mapping lib (cr_structure cr) (cr_structure pcr)))
           (map (assign_pc_potential lib ?latt diel acc q uc (defect_region_radius r)) srs)"
    unfolding list_all2_map2
  proof (rule list_all2_mono [OF l])
    fix dp sr
    assume "make_potential_site lib cr pcr (defect_coords r) dp = Inr sr"
    from make_potential_site_Inr [OF this]
    obtain ps vd vp where
      i: "py_index (sites (cr_structure cr)) (fst dp) = Inr ps"
         "py_index (potentials cr) (fst dp) = Inr vd"
         "py_index (potentials pcr) (snd dp) = Inr vp"
      and sr: "sr = (\<lparr>ps_specie = specie ps,
                    distance = get_distance lib ?latt (defect_coords r) (frac_coords ps),
                    potential = vd - vp,
                    pc_potential = None\<rparr>,
                   map2 (\<lambda>x y. x - y) (frac_coords ps) (defect_coords r))"
      by blast
    have "assign_pc_potential lib ?latt diel acc q uc (defect_region_radius r) sr =
            \<lparr>ps_specie = specie ps,
             distance = get_distance lib ?latt (defect_coords r) (frac_coords ps),
             potential = vd - vp,
             pc_potential =
               (if get_distance lib ?latt (defect_coords r) (frac_coords ps)
                     > defect_region_radius r
                then Some (ewald_atomic_site_potential lib ?latt diel acc
                             (map2 (\<lambda>x y. x - y) (frac_coords ps) (defect_coords r))
                           * real_of_int q * uc)
                else None)\<rparr>"
      using assms(1) by (simp add: sr assign_pc_potential_def)
    with i show "\<exists>ps vd vp.
               py_index (sites (cr_structure cr)) (fst dp) = Inr ps
             \<and> py_index (potentials cr) (fst dp) = Inr vd
             \<and> py_index (potentials pcr) (snd dp) = Inr vp
             \<and> assign_pc_potential lib ?latt diel acc q uc (defect_region_radius r) sr =
                 \<lparr>ps_specie = specie ps,
                  distance = get_distance lib ?latt (defect_coords r) (frac_coords ps),
                  potential = vd - vp,
                  pc_potential =
                    (if get_distance lib ?latt (defect_coords r) (frac_coords ps)
                          > defect_region_radius r
                     then Some (ewald_atomic_site_potential lib ?latt diel acc
                                  (map2 (\<lambda>x y. x - y) (frac_coords ps) (defect_coords r))
                                * real_of_int q * uc)
                     else None)\<rparr>"
      by blast
  qed
  from 1 2 3 ss show ?thesis by simp
qed

theorem model_potential_outside_radius_witness:
  "(- 2 :: int) \<noteq> 0
   \<and> doped_make_efnv_correction example_lib (- 2) example_defect_results example_bulk_results
       (cubic 9) None (Some [1/10, 0, 0]) 15 unit_conversion_default None
       = Inr example_efnv_offcentre
   \<and> defect_region_radius example_efnv_offcentre = calc_max_sphere_radius example_lib (cubic 10)
   \<and> defect_coords example_efnv_offcentre = [1/10, 0, 0]
   \<and> list_all2
        (\<lambda>dp site. \<exists>ps vd vp.
            py_index example_sites (fst dp) = Inr ps
          \<and> py_index [3, 2, 2] (fst dp) = Inr vd
          \<and> py_index [1, 1, 1] (snd dp) = Inr vp
          \<and> site =
              \<lparr>ps_specie = specie ps,
               distance = get_distance example_lib (cubic 10) [1/10, 0, 0] (frac_coords ps),
               potential = vd - vp,
               pc_potential =
                 (if get_distance example_lib (cubic 10) [1/10, 0, 0] (frac_coords ps) > 5
                  then Some (ewald_atomic_site_potential example_lib (cubic 10) (cubic 9) 15
                               (map2 (\<lambda>x y. x - y) (frac_coords ps) [1/10, 0, 0])
                             * real_of_int (- 2) * unit_conversion_default)
                  else None)\<rparr>)
        [(0, 0), (1, 1), (2, 2)]
        (efnv_sites example_efnv_offcentre)
   \<and> map pc_potential (efnv_sites example_efnv_offcentre) =
       [None, Some (13/20 * (- 2) * 180.95128169876497),
        Some (13/20 * (- 2) * 180.95128169876497)]"
proof -
  have h: "(- 2 :: int) \<noteq> 0" by simp
  have e: "defect_region_radius example_efnv_offcentre = 5"
    "defect_coords example_efnv_offcentre = [1/10, 0, 0]"
    "map pc_potential (efnv_sites example_efnv_offcentre) =
       [None, Some (13/20 * (- 2) * 180.95128169876497),
        Some (13/20 * (- 2) * 180.95128169876497)]"
    by (simp_all add: example_efnv_offcentre_def)
  have s: "lattice (cr_structure example_defect_results) = cubic 10"
    "sites (cr_structure example_defect_results) = example_sites"
    "potentials example_defect_results = [3, 2, 2]"
    "potentials example_bulk_results = [1, 1, 1]"
    "atom_mapping example_lib (cr_structure example_defect_results)
       (cr_structure example_bulk_results) = [(0, 0), (1, 1), (2, 2)]"
    "calc_max_sphere_radius example_lib (cubic 10) = 5"
    by (simp_all add: example_defect_results_def example_bulk_results_def
          example_defect_supercell_def example_lib_def)
  from model_potential_outside_radius [OF h example_run_offcentre]
  show ?thesis
    unfolding s e using h example_run_offcentre by simp
qed

subsection \<open>The point-charge term and the unit conversion\<close>

lemma example_run_unit:
  "doped_make_efnv_correction example_lib (- 2) example_defect_results example_bulk_results
     (cubic 9) None (Some [0, 0, 0]) 15 1 None = Inr example_efnv_unit"
  by (simp add: efnv_defs example_defs example_efnv_unit_def)

lemma neutral_run_unit:
  "doped_make_efnv_correction example_lib 0 example_defect_results example_bulk_results
     (cubic 9) None (Some [0, 0, 0]) 15 1 None = Inr neutral_efnv"
  by (simp add: efnv_defs example_defs neutral_efnv_def)

lemma example_kumagai_run_unit:
  "kumagai_correction_result example_lib example_entry None None None None None
     [(''unit_conversion'', 1)]
   = Inr (\<lparr>correction_energy = - 1,
           metadata = [(''pydefect_ExtendedFnvCorrection'', example_efnv_unit)]\<rparr>,
          example_efnv_unit)"
proof -
  have "call_doped_make_efnv_correction example_lib (- 2)
     \<lparr>cr_structure = example_defect_supercell, potentials = [3, 2, 2]\<rparr>
     \<lparr>cr_structure = example_bulk_supercell, potentials = [1, 1, 1]\<rparr>
     (cubic 9) (Some [0, 0, 0]) None None [(''unit_conversion'', 1)] = Inr example_efnv_unit"
    using example_run_unit
    by (simp add: call_doped_make_efnv_correction_def example_lib_sel
          example_defect_results_def example_bulk_results_def)
  then show ?thesis
    by (simp add: kumagai_correction_result_def kumagai_result_from_def example_inputs
          example_lib_sel example_entry_sel example_match)
       (simp add: example_efnv_unit_def)
qed

text \<open>
  Claim C2 as stated fails: 180.95128169876497 is the default of the keyword parameter
  \<^verbatim>\<open>unit_conversion\<close>, which \<^verbatim>\<open>get_kumagai_correction\<close> forwards from its \<^verbatim>\<open>**kwargs\<close>.
  With \<^verbatim>\<open>unit_conversion=1\<close>, charge -2 and lattice energy 1/4 the point-charge term
  is -1, not -(1/4) * 4 * 180.95128169876497.
\<close>

theorem unit_conversion_override_counterexample:
  "kumagai_correction_result example_lib example_entry None None None None None
     [(''unit_conversion'', 1)]
   = Inr (\<lparr>correction_energy = - 1,
           metadata = [(''pydefect_ExtendedFnvCorrection'', example_efnv_unit)]\<rparr>,
          example_efnv_unit)
   \<and> charge example_efnv_unit = - 2
   \<and> ewald_lattice_energy example_lib (lattice example_defect_supercell) (cubic 9)
        (ewald_accuracy example_lib) = 1/4
   \<and> point_charge_correction example_efnv_unit = - 1
   \<and> point_charge_correction example_efnv_unit
       \<noteq> - (1/4) * (real_of_int (- 2))\<^sup>2 * 180.95128169876497"
  using example_kumagai_run_unit
  by (simp add: example_efnv_unit_def example_lib_def)

text \<open>
  Claim C2 (amended). Whenever \<^verbatim>\<open>doped_make_efnv_correction\<close> returns, the point-charge
  correction of the returned object is, for a nonzero charge q, minus the Ewald
  lattice energy times q squared times the argument \<^verbatim>\<open>unit_conversion\<close>, and it is
  exactly 0 for q = 0, whatever \<^verbatim>\<open>unit_conversion\<close> is. In the call made by
  \<^verbatim>\<open>get_kumagai_correction\<close> the argument is the value of \<^verbatim>\<open>unit_conversion\<close> in
  \<^verbatim>\<open>**kwargs\<close> and, when there is none, the default 180.95128169876497.
\<close>

theorem point_charge_correction_formula:
  "(doped_make_efnv_correction lib q cr pcr diel radius_arg coords_arg acc uc excluded_arg = Inr r
      \<longrightarrow> point_charge_correction r =
            (if q \<noteq> 0
             then - ewald_lattice_energy lib (lattice (cr_structure cr)) diel acc
                    * (real_of_int q)\<^sup>2 * uc
             else 0))
   \<and> (call_doped_make_efnv_correction lib q cr pcr diel coords_arg radius_arg excluded_arg kwargs
        = Inr r'
      \<longrightarrow> point_charge_correction r' =
            (if q \<noteq> 0
             then - ewald_lattice_energy lib (lattice (cr_structure cr)) diel
                      (case map_of kwargs ''accuracy'' of
                         None \<Rightarrow> ewald_accuracy lib
                       | Some a \<Rightarrow> a)
                    * (real_of_int q)\<^sup>2
                    * (case map_of kwargs ''unit_conversion'' of
                         None \<Rightarrow> 180.95128169876497
                       | Some u \<Rightarrow> u)
             else 0))"
proof -
  have g: "point_charge_correction x =
            (if q \<noteq> 0
             then - ewald_lattice_energy lib (lattice (cr_structure cr)) diel a
                    * (real_of_int q)\<^sup>2 * u
             else 0)"
    if "doped_make_efnv_correction lib q cr pcr diel radius_arg coords_arg a u excluded_arg = Inr x"
    for x a u
  proof -
    from doped_make_efnv_correction_Inr [OF that]
    have "point_charge_correction x =
            point_charge_term lib (lattice (cr_structure cr)) diel a q * u"
      by auto
    then show ?thesis
      by (simp add: point_charge_term_def)
  qed
  have k: "doped_make_efnv_correction lib q cr pcr diel radius_arg coords_arg
             (case map_of kwargs ''accuracy'' of None \<Rightarrow> ewald_accuracy lib | Some a \<Rightarrow> a)
             (case map_of kwargs ''unit_conversion'' of
                None \<Rightarrow> 180.95128169876497 | Some u \<Rightarrow> u)
             excluded_arg = Inr r'"
    if "call_doped_make_efnv_correction lib q cr pcr diel coords_arg radius_arg excluded_arg kwargs
          = Inr r'"
  proof (cases "list_all (\<lambda>kv. fst kv = ''accuracy'' \<or> fst kv = ''unit_conversion'') kwargs")
    case True
    with that show ?thesis
      unfolding call_doped_make_efnv_correction_def unit_conversion_default_def
      by (simp only: not_True_eq_False if_False)
  next
    case False
    with that show ?thesis
      by (simp add: call_doped_make_efnv_correction_def)
  qed
  from g k show ?thesis by blast
qed

theorem point_charge_correction_formula_witness:
  "doped_make_efnv_correction example_lib (- 2) example_defect_results example_bulk_results
     (cubic 9) None (Some [0, 0, 0]) 15 1 None = Inr example_efnv_unit
   \<and> point_charge_correction example_efnv_unit = - (1/4) * (- 2)\<^sup>2 * 1
   \<and> doped_make_efnv_correction example_lib 0 example_defect_results example_bulk_results
       (cubic 9) None (Some [0, 0, 0]) 15 1 None = Inr neutral_efnv
   \<and> point_charge_correction neutral_efnv = 0
   \<and> call_doped_make_efnv_correction example_lib (- 2)
       \<lparr>cr_structure = example_defect_supercell, potentials = [3, 2, 2]\<rparr>
       \<lparr>cr_structure = example_bulk_supercell, potentials = [1, 1, 1]\<rparr>
       (cubic 9) (Some [0, 0, 0]) None None [] = Inr example_efnv
   \<and> point_charge_correction example_efnv = - (1/4) * (- 2)\<^sup>2 * 180.95128169876497"
proof -
  note T = point_charge_correction_formula
             [of example_lib _ _ example_bulk_results "cubic 9" None "Some [0, 0, 0]"]
  have 1: "point_charge_correction example_efnv_unit = - (1/4) * (- 2)\<^sup>2 * 1"
    using T [of "- 2" example_defect_results 15 1 None example_efnv_unit] example_run_unit
    by (simp add: example_defs)
  have 0: "point_charge_correction neutral_efnv = 0"
    using T [of 0 example_defect_results 15 1 None neutral_efnv] neutral_run_unit
    by simp
  have 2: "point_charge_correction example_efnv = - (1/4) * (- 2)\<^sup>2 * 180.95128169876497"
    using point_charge_correction_formula
            [of example_lib "- 2" "\<lparr>cr_structure = example_defect_supercell, potentials = [3, 2, 2]\<rparr>"
                "\<lparr>cr_structure = example_bulk_supercell, potentials = [1, 1, 1]\<rparr>"
                "cubic 9" None "Some [0, 0, 0]" 15 1 None example_efnv_unit "[]" example_efnv]
          example_call
    by (simp add: example_lib_sel example_lib_def)
  from 0 1 2 example_run_unit neutral_run_unit example_call show ?thesis
    by blast
qed

subsection \<open>Excluding an atom through the entry point\<close>
















text \<open>The run for a neutral defect does not depend on the two functions of the Ewald
  engine.\<close>

lemma make_potential_site_ignores_ewald:
  "make_potential_site (lib\<lparr>ewald_lattice_energy := g, ewald_atomic_site_potential := f\<rparr>)
     cr pcr dc dp
   = make_potential_site lib cr pcr dc dp"
  by (simp add: make_potential_site_def split: sum.splits)

lemma collect_sites_ignores_ewald:
  "collect_sites (lib\<lparr>ewald_lattice_energy := g, ewald_atomic_site_potential := f\<rparr>)
     cr pcr dc excl m
   = collect_sites lib cr pcr dc excl m"
  by (induction m) (simp_all add: make_potential_site_ignores_ewald split: sum.splits)

lemma assign_pc_potential_neutral:
  "assign_pc_potential lib' latt diel acc 0 uc radius
   = assign_pc_potential lib latt diel acc 0 uc radius"
  by (intro ext) (simp add: assign_pc_potential_def)

lemma neutral_run_ignores_ewald:
  "doped_make_efnv_correction (lib\<lparr>ewald_lattice_energy := g, ewald_atomic_site_potential := f\<rparr>)
     0 cr pcr diel radius_arg coords_arg acc uc excluded_arg
   = doped_make_efnv_correction lib 0 cr pcr diel radius_arg coords_arg acc uc excluded_arg"
proof -
  let ?lib = "lib\<lparr>ewald_lattice_energy := g, ewald_atomic_site_potential := f\<rparr>"
  have a: "assign_pc_potential ?lib latt diel acc 0 uc radius
           = assign_pc_potential lib latt diel acc 0 uc radius" for latt radius
    by (rule assign_pc_potential_neutral)
  have b: "center_coords ?lib cr pcr coords_arg = center_coords lib cr pcr coords_arg"
    "region_radius ?lib latt radius_arg = region_radius lib latt radius_arg"
    "point_charge_term ?lib latt diel acc 0 = point_charge_term lib latt diel acc 0"
    "lattice_eq ?lib = lattice_eq lib"
    "atom_mapping ?lib = atom_mapping lib" for latt
    by (simp_all add: center_coords_def region_radius_def point_charge_term_def
          split: option.splits)
  show ?thesis
    unfolding doped_make_efnv_correction_def collect_sites_ignores_ewald a b ..
qed


subsection \<open>Plot data of a neutral defect\<close>



text \<open>Whether and what \<^verbatim>\<open>get_freysoldt_correction\<close> plots is determined by the result of
  pymatgen's routine alone; the charge of the entry enters only through that routine.\<close>

lemma plotting_depends_on_result_only:
  assumes "freysoldt_correction_result lib entry dielectric defect_locpot bulk_locpot kwargs = Inr r"
    and "freysoldt_correction_result lib entry' dielectric' defect_locpot' bulk_locpot' kwargs' = Inr r"
  shows "get_freysoldt_correction lib entry dielectric defect_locpot bulk_locpot plot filename
           axis style_file kwargs
         = get_freysoldt_correction lib entry' dielectric' defect_locpot' bulk_locpot' plot filename
           axis style_file kwargs'"
  using assms by (simp add: get_freysoldt_correction_def)




end
